theory Spec2Isabelle
  imports Complex_Main "HOL-Library.Sublist"
begin

section \<open>Text primitives of the Python source\<close>

text \<open>
  A Python \<^verbatim>\<open>str\<close> is modelled as a HOL string whose characters are the code points 0
  to 255: the ASCII and Latin-1 range of Unicode. On this range the character classes
  and case mappings below are those of Python: \<^verbatim>\<open>str.isspace\<close>, which is also the
  whitespace of \<^verbatim>\<open>str.strip\<close> and the class \<^verbatim>\<open>\s\<close>; \<^verbatim>\<open>str.isalnum\<close>, which with the
  underscore is the class \<^verbatim>\<open>\w\<close> that also decides \<^verbatim>\<open>\b\<close>; the decimal digits of
  \<^verbatim>\<open>\d\<close>; \<^verbatim>\<open>str.lower\<close> and \<^verbatim>\<open>str.upper\<close>. Texts with code points above 255 are outside
  the model.
\<close>

definition upper_letters :: string where
  "upper_letters = ''ABCDEFGHIJKLMNOPQRSTUVWXYZ''"

definition lower_letters :: string where
  "lower_letters = ''abcdefghijklmnopqrstuvwxyz''"

definition digit_chars :: string where
  "digit_chars = ''0123456789''"

text \<open>The upper-case letters of Latin-1 (0xC0-0xDE without 0xD7) and their lower-case forms.\<close>

definition latin_upper :: string where
  "latin_upper =
     [CHR 0xC0, CHR 0xC1, CHR 0xC2, CHR 0xC3, CHR 0xC4, CHR 0xC5, CHR 0xC6, CHR 0xC7, CHR
      0xC8, CHR 0xC9, CHR 0xCA, CHR 0xCB, CHR 0xCC, CHR 0xCD, CHR 0xCE, CHR 0xCF, CHR
      0xD0, CHR 0xD1, CHR 0xD2, CHR 0xD3, CHR 0xD4, CHR 0xD5, CHR 0xD6, CHR 0xD8, CHR
      0xD9, CHR 0xDA, CHR 0xDB, CHR 0xDC, CHR 0xDD, CHR 0xDE]"

definition latin_lower :: string where
  "latin_lower =
     [CHR 0xE0, CHR 0xE1, CHR 0xE2, CHR 0xE3, CHR 0xE4, CHR 0xE5, CHR 0xE6, CHR 0xE7, CHR
      0xE8, CHR 0xE9, CHR 0xEA, CHR 0xEB, CHR 0xEC, CHR 0xED, CHR 0xEE, CHR 0xEF, CHR
      0xF0, CHR 0xF1, CHR 0xF2, CHR 0xF3, CHR 0xF4, CHR 0xF5, CHR 0xF6, CHR 0xF8, CHR
      0xF9, CHR 0xFA, CHR 0xFB, CHR 0xFC, CHR 0xFD, CHR 0xFE]"

text \<open>\<^verbatim>\<open>c.isspace()\<close>: 9-13, 28-32, 0x85 and 0xA0.\<close>

definition is_space :: "char \<Rightarrow> bool" where
  "is_space c =
     (let n = (of_char c :: nat)
      in (9 \<le> n \<and> n \<le> 13) \<or> (28 \<le> n \<and> n \<le> 32) \<or> n = 133 \<or> n = 160)"

definition is_digit :: "char \<Rightarrow> bool" where
  "is_digit c = (let n = (of_char c :: nat) in 48 \<le> n \<and> n \<le> 57)"

text \<open>
  \<^verbatim>\<open>c.isalnum()\<close>: the ASCII digits and letters, and in Latin-1 the letters 0xAA, 0xB5,
  0xBA, 0xC0-0xD6, 0xD8-0xF6, 0xF8-0xFF, the superscript digits 0xB2, 0xB3, 0xB9 and the
  fractions 0xBC-0xBE.
\<close>

definition is_alnum :: "char \<Rightarrow> bool" where
  "is_alnum c =
     (let n = (of_char c :: nat)
      in (48 \<le> n \<and> n \<le> 57) \<or> (65 \<le> n \<and> n \<le> 90) \<or> (97 \<le> n \<and> n \<le> 122)
         \<or> n = 170 \<or> (178 \<le> n \<and> n \<le> 179) \<or> n = 181 \<or> (185 \<le> n \<and> n \<le> 186)
         \<or> (188 \<le> n \<and> n \<le> 190) \<or> (192 \<le> n \<and> n \<le> 214) \<or> (216 \<le> n \<and> n \<le> 246)
         \<or> (248 \<le> n \<and> n \<le> 255))"

definition is_word :: "char \<Rightarrow> bool" where
  "is_word c = (is_alnum c \<or> c = CHR ''_'')"

text \<open>The characters that \<^verbatim>\<open>str.lower\<close> changes: A-Z, 0xC0-0xD6 and 0xD8-0xDE.\<close>

definition is_upper :: "char \<Rightarrow> bool" where
  "is_upper c =
     (let n = (of_char c :: nat)
      in (65 \<le> n \<and> n \<le> 90) \<or> (192 \<le> n \<and> n \<le> 214) \<or> (216 \<le> n \<and> n \<le> 222))"

definition lower_char :: "char \<Rightarrow> char" where
  "lower_char c =
     (if is_upper c
      then (case map_of (zip (upper_letters @ latin_upper) (lower_letters @ latin_lower)) c of
              Some d \<Rightarrow> d
            | None \<Rightarrow> c)
      else c)"

text \<open>
  A code point of the result of \<^verbatim>\<open>str.upper\<close>, which can leave the range of the model:
  0xB5 becomes U+039C and 0xFF becomes U+0178. 0xDF becomes the two letters SS.
\<close>

datatype code_point = Below char | Above nat

definition upper_char :: "char \<Rightarrow> code_point list" where
  "upper_char c =
     (if c = CHR 0xDF then [Below CHR ''S'', Below CHR ''S'']
      else if c = CHR 0xB5 then [Above 0x39C]
      else if c = CHR 0xFF then [Above 0x178]
      else (case map_of (zip (lower_letters @ latin_lower) (upper_letters @ latin_upper)) c of
              Some d \<Rightarrow> [Below d]
            | None \<Rightarrow> [Below c]))"

text \<open>\<^verbatim>\<open>s.lower()\<close> and \<^verbatim>\<open>s.upper()\<close>.\<close>

definition str_lower :: "string \<Rightarrow> string" where
  "str_lower s = map lower_char s"

definition str_upper :: "string \<Rightarrow> code_point list" where
  "str_upper s = concat (map upper_char s)"

text \<open>A text of the model among code points.\<close>

definition below :: "string \<Rightarrow> code_point list" where
  "below s = map Below s"

text \<open>\<^verbatim>\<open>s.strip()\<close> and \<^verbatim>\<open>s.rstrip(chars)\<close>.\<close>

definition lstrip :: "string \<Rightarrow> string" where
  "lstrip s = dropWhile is_space s"

definition rstrip :: "string \<Rightarrow> string" where
  "rstrip s = rev (dropWhile is_space (rev s))"

definition strip :: "string \<Rightarrow> string" where
  "strip s = rstrip (lstrip s)"

definition rstrip_chars :: "string \<Rightarrow> string \<Rightarrow> string" where
  "rstrip_chars cs s = rev (dropWhile (\<lambda>c. c \<in> set cs) (rev s))"

text \<open>\<^verbatim>\<open>s.startswith(p)\<close> is \<^const>\<open>prefix\<close>; \<^verbatim>\<open>p in s\<close> is a search for a contiguous run.\<close>

fun str_in :: "'a list \<Rightarrow> 'a list \<Rightarrow> bool" where
  "str_in p [] = (p = [])"
| "str_in p (x # xs) = (prefix p (x # xs) \<or> str_in p xs)"

text \<open>\<^verbatim>\<open>sep.join(parts)\<close>.\<close>

fun str_join :: "string \<Rightarrow> string list \<Rightarrow> string" where
  "str_join sep [] = []"
| "str_join sep [p] = p"
| "str_join sep (p # q # ps) = p @ sep @ str_join sep (q # ps)"

text \<open>Decimal rendering of integers, as \<^verbatim>\<open>str(n)\<close> and f-string interpolation give it.\<close>

fun str_nat :: "nat \<Rightarrow> string" where
  "str_nat n = (if n < 10 then [digit_chars ! n] else str_nat (n div 10) @ [digit_chars ! (n mod 10)])"

declare str_nat.simps [simp del]

definition str_int :: "int \<Rightarrow> string" where
  "str_int i = (if i < 0 then CHR ''-'' # str_nat (nat (- i)) else str_nat (nat i))"

section \<open>Exceptions\<close>

text \<open>
  The exceptions that the modelled functions raise or catch. \<open>DatabaseError\<close> stands for
  whatever the database driver raises other than a timeout; it carries the driver's text.
\<close>

datatype py_exn =
    HTTPException nat string
  | ValueError string
  | TypeError string
  | OverflowError string
  | KeyError string
  | UnboundLocalError string
  | TimeoutError string
  | DatabaseError string
  | OtherError string

text \<open>\<^verbatim>\<open>str(e)\<close>. An \<^verbatim>\<open>HTTPException\<close> prints as status code, colon, detail.\<close>

fun exn_str :: "py_exn \<Rightarrow> string" where
  "exn_str (HTTPException code detail) = str_nat code @ '': '' @ detail"
| "exn_str (ValueError m) = m"
| "exn_str (TypeError m) = m"
| "exn_str (OverflowError m) = m"
| "exn_str (KeyError k) = [CHR 0x27] @ k @ [CHR 0x27]"
| "exn_str (UnboundLocalError m) = m"
| "exn_str (TimeoutError m) = m"
| "exn_str (DatabaseError m) = m"
| "exn_str (OtherError m) = m"

fun is_timeout :: "py_exn \<Rightarrow> bool" where
  "is_timeout (TimeoutError m) = True"
| "is_timeout e = False"

section \<open>Regular expressions of \<^verbatim>\<open>sql_utils.py\<close>\<close>

text \<open>
  The patterns of the module are sequences of these atoms: a literal character, an
  optional literal character (\<^verbatim>\<open>c?\<close>), \<^verbatim>\<open>k*\<close> and \<^verbatim>\<open>k+\<close> over one of the classes
  \<^verbatim>\<open>\s\<close>, \<^verbatim>\<open>\d\<close>, \<^verbatim>\<open>\w\<close>, and the word boundary \<^verbatim>\<open>\b\<close>. All of them are compiled or
  searched with \<^verbatim>\<open>re.IGNORECASE\<close>, so a literal matches in either case.
\<close>

datatype cclass = Space | Digit | Word

datatype atom = Lit char | Opt char | Star cclass | Plus cclass | WordB

fun in_class :: "cclass \<Rightarrow> char \<Rightarrow> bool" where
  "in_class Space c = is_space c"
| "in_class Digit c = is_digit c"
| "in_class Word c = is_word c"

text \<open>
  \<^verbatim>\<open>\b\<close> holds between the previous character (none at the start of the text) and the
  next one (none at its end) when exactly one of them is a word character.
\<close>

fun word_before :: "char option \<Rightarrow> bool" where
  "word_before None = False"
| "word_before (Some c) = is_word c"

fun word_next :: "string \<Rightarrow> bool" where
  "word_next [] = False"
| "word_next (x # xs) = is_word x"

text \<open>
  \<open>rmatch p prev s\<close>: the pattern \<open>p\<close> matches some prefix of \<open>s\<close>, where \<open>prev\<close> is the
  character of the text just before \<open>s\<close>.
\<close>

fun rmatch :: "atom list \<Rightarrow> char option \<Rightarrow> string \<Rightarrow> bool" where
  "rmatch [] prev s = True"
| "rmatch (Lit c # as) prev [] = False"
| "rmatch (Lit c # as) prev (x # xs) = (lower_char x = lower_char c \<and> rmatch as (Some x) xs)"
| "rmatch (Opt c # as) prev [] = rmatch as prev []"
| "rmatch (Opt c # as) prev (x # xs) =
     ((lower_char x = lower_char c \<and> rmatch as (Some x) xs) \<or> rmatch as prev (x # xs))"
| "rmatch (Star k # as) prev [] = rmatch as prev []"
| "rmatch (Star k # as) prev (x # xs) =
     (rmatch as prev (x # xs) \<or> (in_class k x \<and> rmatch (Star k # as) (Some x) xs))"
| "rmatch (Plus k # as) prev [] = False"
| "rmatch (Plus k # as) prev (x # xs) = (in_class k x \<and> rmatch (Star k # as) (Some x) xs)"
| "rmatch (WordB # as) prev s = (word_before prev \<noteq> word_next s \<and> rmatch as prev s)"

text \<open>
  \<^verbatim>\<open>pattern.search(s)\<close> as a truth value: some alternative matches at some position.
  A compiled pattern is the list of its alternatives (\<^verbatim>\<open>"|".join(...)\<close>).
\<close>

fun search_from :: "atom list list \<Rightarrow> char option \<Rightarrow> string \<Rightarrow> bool" where
  "search_from alts prev [] = list_ex (\<lambda>p. rmatch p prev []) alts"
| "search_from alts prev (x # xs) =
     (list_ex (\<lambda>p. rmatch p prev (x # xs)) alts \<or> search_from alts (Some x) xs)"

definition re_search :: "atom list list \<Rightarrow> string \<Rightarrow> bool" where
  "re_search alts s = search_from alts None s"

definition lits :: "string \<Rightarrow> atom list" where
  "lits s = map Lit s"

section \<open>\<^verbatim>\<open>sql_utils.py\<close>\<close>

definition FORBIDDEN_TOKENS :: "atom list list" where
  "FORBIDDEN_TOKENS =
   [ lits '';'',
     lits ''--'',
     lits ''/*'',
     lits ''*/'',
     lits ''drop'' @ [WordB],
     lits ''delete'' @ [WordB],
     lits ''truncate'' @ [WordB],
     lits ''insert'' @ [WordB],
     lits ''update'' @ [WordB],
     lits ''alter'' @ [WordB],
     lits ''create'' @ [WordB],
     lits ''grant'' @ [WordB],
     lits ''revoke'' @ [WordB],
     lits ''union'' @ [WordB],
     lits ''exec'' @ [WordB],
     lits ''execute'' @ [WordB],
     lits ''sp_'' @ [Plus Word],
     lits ''xp_'' @ [Plus Word],
     lits ''declare'' @ [WordB],
     lits ''char'' @ [Star Space, Lit CHR ''(''],
     lits ''ascii'' @ [Star Space, Lit CHR ''(''],
     lits ''substring'' @ [Star Space, Lit CHR ''(''],
     lits ''concat'' @ [Star Space, Lit CHR ''(''],
     lits ''cast'' @ [Star Space, Lit CHR ''(''],
     lits ''convert'' @ [Star Space, Lit CHR ''(''],
     lits ''@@'' @ [Plus Word],
     lits ''waitfor'' @ [WordB],
     lits ''benchmark'' @ [WordB],
     lits ''sleep'' @ [Star Space, Lit CHR ''(''],
     lits ''pg_sleep'' @ [Star Space, Lit CHR ''(''],
     lits ''dbms_'' @ [Plus Word],
     lits ''utl_'' @ [Plus Word],
     [Lit (CHR 0x27), Star Space] @ lits ''or'' @ [Star Space, Lit (CHR 0x27), Plus Digit,
        Lit (CHR 0x27), Star Space, Lit CHR ''='', Star Space, Lit (CHR 0x27), Plus Digit,
        Opt (CHR 0x27)],
     [Plus Space] @ lits ''or'' @ [Plus Space, Plus Digit, Star Space, Lit CHR ''='',
        Star Space, Plus Digit],
     lits ''or'' @ [Star Space, Lit (CHR 0x27), Plus Digit, Lit (CHR 0x27), Star Space,
        Lit CHR ''='', Star Space, Lit (CHR 0x27), Plus Digit, Opt (CHR 0x27)],
     [Lit (CHR 0x27), Star Space] @ lits ''or'' @ [Star Space, Plus Digit, Star Space,
        Lit CHR ''='', Star Space, Plus Digit] ]"

definition is_safe_sql :: "string \<Rightarrow> bool" where
  "is_safe_sql sql =
     (let stripped = str_lower (strip sql) in
      if \<not> prefix ''select'' stripped then False
      else if re_search FORBIDDEN_TOKENS stripped then False
      else True)"

definition injection_patterns :: "atom list list" where
  "injection_patterns =
   [ [Lit (CHR 0x27), Star Space] @ lits ''or'' @ [Plus Space, Lit (CHR 0x27), Plus Digit,
        Lit (CHR 0x27), Star Space, Lit CHR ''='', Star Space, Lit (CHR 0x27), Plus Digit,
        Lit (CHR 0x27)],
     [Lit (CHR 0x27), Star Space] @ lits ''or'' @ [Plus Space, Plus Digit, Star Space,
        Lit CHR ''='', Star Space, Plus Digit],
     [Lit (CHR 0x27), Star Space] @ lits ''and'' @ [Plus Space, Lit (CHR 0x27), Plus Digit,
        Lit (CHR 0x27), Star Space, Lit CHR ''='', Star Space, Lit (CHR 0x27), Plus Digit,
        Lit (CHR 0x27)],
     [Lit (CHR 0x27), Star Space, Lit CHR '';'', Star Space] @ lits ''select'' @ [Plus Space],
     [Lit (CHR 0x27), Star Space] @ lits ''union'' @ [Plus Space] @ lits ''all''
        @ [Plus Space] @ lits ''select'' @ [Plus Space],
     lits ''information_schema.'',
     lits ''sys.'',
     lits ''dual'' @ [Plus Space] @ lits ''where'',
     lits ''from'' @ [Plus Space] @ lits ''dual'' @ [Plus Space] @ lits ''where'' ]"

definition unsafe_sql_detail :: string where
  "unsafe_sql_detail = ''Unsafe SQL detected. Only read-only SELECT queries are permitted.''"

definition validate_sql :: "string \<Rightarrow> py_exn + unit" where
  "validate_sql sql =
     (if \<not> is_safe_sql sql then Inl (HTTPException 400 unsafe_sql_detail)
      else
        let sql_lower = strip (str_lower sql) in
        if list_ex (\<lambda>pattern. re_search [pattern] sql_lower) injection_patterns
        then Inl (HTTPException 400 ''Potential SQL injection detected. Query rejected.'')
        else if length sql > 10000
        then Inl (HTTPException 400 ''Query too long. Maximum length is 10,000 characters.'')
        else Inr ())"

text \<open>
  \<^verbatim>\<open>escape_literal\<close>: the value between single quotes, every single quote in it doubled.
\<close>

definition escape_literal :: "string \<Rightarrow> string" where
  "escape_literal v =
     [CHR 0x27] @ concat (map (\<lambda>c. if c = CHR 0x27 then [CHR 0x27, CHR 0x27] else [c]) v)
       @ [CHR 0x27]"

section \<open>Request and result models (\<^verbatim>\<open>models.py\<close>)\<close>

text \<open>
  A value of a filter condition (\<^verbatim>\<open>Union[str, int, float, List[Any]]\<close>) or an element of a
  list value. A float is carried as the text that formatting it gives, and \<open>PObj\<close> is any
  other object (\<^verbatim>\<open>None\<close>, a dictionary, ...), carried as the text \<^verbatim>\<open>str\<close> gives for it.
\<close>

datatype pyval =
    PStr string
  | PInt int
  | PBool bool
  | PFloat string
  | PObj string
  | PList "pyval list"

record FilterCondition =
  column :: string
  operator :: string
  val :: pyval

record TableFilter =
  conditions :: "FilterCondition list"
  logic :: string

record FilteredQueryRequest =
  query_id :: "int option"
  sql_query :: "string option"
  filters :: "TableFilter option"
  limit :: "int option"
  offset :: "int option"
  sort_column :: "string option"
  sort_direction :: "string option"

text \<open>
  A Python \<^verbatim>\<open>float\<close>: a finite value, an infinity or not-a-number. A cell of a result set:
  \<^verbatim>\<open>None\<close>, an integer, a float, a string, or any other object (a date, a decimal, ...)
  named by its text. A number placed in a chart series.
\<close>

datatype pyfloat = Finite real | PosInf | NegInf | NaN

datatype cell = CNone | CInt int | CFloat pyfloat | CStr string | CObj string

datatype number = NInt int | NFloat pyfloat

datatype ds_entry = DNums "number list" | DText string | DTexts "string list" | DFlag bool

record ChartData =
  labels :: "string list"
  datasets :: "(string \<times> ds_entry) list list"

record TableData =
  columns :: "string list"
  data :: "cell list list"
  total_count :: int

datatype result_data = Chart ChartData | Table TableData

text \<open>
  \<^verbatim>\<open>QueryResult\<close>; its \<^verbatim>\<open>data\<close> field is \<open>qr_data\<close> here, and \<^verbatim>\<open>execution_time\<close>
  (wall-clock time) is left out.
\<close>

record QueryResult =
  success :: bool
  qr_data :: "result_data option"
  chart_type :: "string option"
  chart_config :: "(string \<times> string) list option"
  error :: "string option"

definition failure :: "string \<Rightarrow> QueryResult" where
  "failure msg = \<lparr>success = False, qr_data = None, chart_type = None, chart_config = None,
                   error = Some msg\<rparr>"

section \<open>The filter compiler (\<^verbatim>\<open>DataService.apply_filters\<close>)\<close>

text \<open>
  \<^verbatim>\<open>repr\<close> of a string (the characters that are not printable, 0-31, 127-160 and 173,
  are escaped) and \<^verbatim>\<open>repr\<close>/\<^verbatim>\<open>str\<close> of a value.
\<close>

definition hex_digits :: string where
  "hex_digits = ''0123456789abcdef''"

definition repr_char :: "char \<Rightarrow> char \<Rightarrow> string" where
  "repr_char q c =
     (if c = q \<or> c = CHR 0x5C then [CHR 0x5C, c]
      else if c = CHR 0x09 then [CHR 0x5C, CHR ''t'']
      else if c = CHR 0x0A then [CHR 0x5C, CHR ''n'']
      else if c = CHR 0x0D then [CHR 0x5C, CHR ''r'']
      else if (of_char c :: nat) < 32
              \<or> (127 \<le> (of_char c :: nat) \<and> (of_char c :: nat) \<le> 160)
              \<or> (of_char c :: nat) = 173
      then [CHR 0x5C, CHR ''x'', hex_digits ! ((of_char c :: nat) div 16),
            hex_digits ! ((of_char c :: nat) mod 16)]
      else [c])"

definition repr_str :: "string \<Rightarrow> string" where
  "repr_str s =
     (let q = (if CHR 0x27 \<in> set s \<and> CHR 0x22 \<notin> set s then CHR 0x22 else CHR 0x27)
      in [q] @ concat (map (repr_char q) s) @ [q])"

fun py_repr :: "pyval \<Rightarrow> string" where
  "py_repr (PStr s) = repr_str s"
| "py_repr (PInt i) = str_int i"
| "py_repr (PBool b) = (if b then ''True'' else ''False'')"
| "py_repr (PFloat t) = t"
| "py_repr (PObj t) = t"
| "py_repr (PList xs) = ''['' @ str_join '', '' (map py_repr xs) @ '']''"

fun py_str :: "pyval \<Rightarrow> string" where
  "py_str (PStr s) = s"
| "py_str v = py_repr v"

text \<open>
  The local helper \<^verbatim>\<open>_as_sql_literal\<close>: an \<^verbatim>\<open>int\<close> or \<^verbatim>\<open>float\<close> (a \<^verbatim>\<open>bool\<close> is an \<^verbatim>\<open>int\<close>)
  is returned as it is, a number and not a text; anything else is returned as the text
  that \<^const>\<open>escape_literal\<close> makes of its \<^verbatim>\<open>str\<close>.
\<close>

datatype literal = LText string | LInt int | LBool bool | LFloat string

fun as_sql_literal :: "pyval \<Rightarrow> literal" where
  "as_sql_literal (PInt i) = LInt i"
| "as_sql_literal (PBool b) = LBool b"
| "as_sql_literal (PFloat t) = LFloat t"
| "as_sql_literal v = LText (escape_literal (py_str v))"

text \<open>Interpolation in an f-string formats either kind.\<close>

fun literal_text :: "literal \<Rightarrow> string" where
  "literal_text (LText s) = s"
| "literal_text (LInt i) = str_int i"
| "literal_text (LBool b) = (if b then ''True'' else ''False'')"
| "literal_text (LFloat t) = t"

fun type_name :: "literal \<Rightarrow> string" where
  "type_name (LText s) = ''str''"
| "type_name (LInt i) = ''int''"
| "type_name (LBool b) = ''bool''"
| "type_name (LFloat t) = ''float''"

text \<open>
  \<^verbatim>\<open>", ".join(...)\<close> over the literals: \<^verbatim>\<open>str.join\<close> accepts texts only and raises
  \<^verbatim>\<open>TypeError\<close> at the first item that is a number (\<open>i\<close> is the index of the head).
\<close>

fun join_literals :: "nat \<Rightarrow> literal list \<Rightarrow> py_exn + string list" where
  "join_literals i [] = Inr []"
| "join_literals i (LText s # rest) =
     (case join_literals (i + 1) rest of Inl e \<Rightarrow> Inl e | Inr ts \<Rightarrow> Inr (s # ts))"
| "join_literals i (l # rest) =
     Inl (TypeError (''sequence item '' @ str_nat i @ '': expected str instance, ''
            @ type_name l @ '' found''))"

fun is_list :: "pyval \<Rightarrow> bool" where
  "is_list (PList xs) = True"
| "is_list v = False"

fun list_items :: "pyval \<Rightarrow> pyval list" where
  "list_items (PList xs) = xs"
| "list_items v = []"

text \<open>
  One pass of the loop over the conditions: the text appended to \<^verbatim>\<open>where_conditions\<close>,
  \<open>None\<close> when no branch of the \<^verbatim>\<open>if\<close>/\<^verbatim>\<open>elif\<close> chain applies and nothing is appended, or
  the exception that the \<^verbatim>\<open>in\<close> branch raises.
\<close>

definition render_condition :: "FilterCondition \<Rightarrow> py_exn + string option" where
  "render_condition condition =
     (let col = column condition;
          op = str_lower (operator condition);
          v = val condition in
      if op = ''eq'' then Inr (Some (col @ '' = '' @ literal_text (as_sql_literal v)))
      else if op = ''ne'' then Inr (Some (col @ '' != '' @ literal_text (as_sql_literal v)))
      else if op = ''gt'' then Inr (Some (col @ '' > '' @ literal_text (as_sql_literal v)))
      else if op = ''lt'' then Inr (Some (col @ '' < '' @ literal_text (as_sql_literal v)))
      else if op = ''gte'' then Inr (Some (col @ '' >= '' @ literal_text (as_sql_literal v)))
      else if op = ''lte'' then Inr (Some (col @ '' <= '' @ literal_text (as_sql_literal v)))
      else if op = ''like''
      then Inr (Some (col @ '' LIKE '' @ [CHR 0x27] @ ''%'' @ [CHR 0x27] @ '' || ''
                   @ literal_text (as_sql_literal v) @ '' || '' @ [CHR 0x27] @ ''%''
                   @ [CHR 0x27]))
      else if op = ''in'' \<and> is_list v
      then (case join_literals 0 (map as_sql_literal (list_items v)) of
              Inl e \<Rightarrow> Inl e
            | Inr ts \<Rightarrow> Inr (Some (col @ '' IN ('' @ str_join '', '' ts @ '')'')))
      else Inr None)"

text \<open>The loop: the texts appended, in order, or the first exception raised.\<close>

fun render_conditions :: "FilterCondition list \<Rightarrow> py_exn + string list" where
  "render_conditions [] = Inr []"
| "render_conditions (condition # rest) =
     (case render_condition condition of
        Inl e \<Rightarrow> Inl e
      | Inr r \<Rightarrow>
          (case render_conditions rest of
             Inl e \<Rightarrow> Inl e
           | Inr rs \<Rightarrow> Inr (case r of None \<Rightarrow> rs | Some t \<Rightarrow> t # rs)))"

definition apply_filters :: "string \<Rightarrow> TableFilter option \<Rightarrow> py_exn + string" where
  "apply_filters base_query fs =
     (case fs of
        None \<Rightarrow> Inr base_query
      | Some f \<Rightarrow>
          if conditions f = [] then Inr base_query
          else
            (case render_conditions (conditions f) of
               Inl e \<Rightarrow> Inl e
             | Inr where_conditions \<Rightarrow>
                 if where_conditions \<noteq> []
                 then
                   let logic_operator = '' '' @ logic f @ '' '';
                       where_clause = str_join logic_operator where_conditions
                   in if str_in (below ''WHERE'') (str_upper base_query)
                      then Inr (base_query @ '' AND ('' @ where_clause @ '')'')
                      else Inr (base_query @ '' WHERE '' @ where_clause)
                 else Inr base_query))"

section \<open>The query services (\<^verbatim>\<open>services.py\<close>)\<close>

subsection \<open>What the services call\<close>

text \<open>A \<^verbatim>\<open>pandas.DataFrame\<close>: the column labels and the rows.\<close>

record DataFrame =
  df_columns :: "string list"
  df_rows :: "cell list list"

text \<open>The stored query that \<^verbatim>\<open>QueryService.get_query_by_id\<close> returns; only its SQL text is used.\<close>

record Query =
  stored_sql_query :: string

text \<open>
  The collaborators of the services: \<^verbatim>\<open>db_manager.execute_query\<close> (rows as dictionaries)
  and \<^verbatim>\<open>db_manager.execute_query_pandas\<close>, each given the SQL text and the timeout and
  either raising or returning; the lookup of a stored query; \<^verbatim>\<open>_format_chart_data\<close>, the
  shaping of the chart kinds other than \<^verbatim>\<open>kpi\<close>, which is pandas arithmetic that nothing
  below depends on; and the builtin \<^verbatim>\<open>float\<close> where its result is not determined here:
  on a string (\<open>None\<close> when it raises \<^verbatim>\<open>ValueError\<close>), on an integer beyond \<open>2 ^ 53\<close> in
  magnitude (the nearest float, \<open>None\<close> when it raises \<^verbatim>\<open>OverflowError\<close>), and on any other
  object.
\<close>

record world =
  db_execute_query :: "string \<Rightarrow> int \<Rightarrow> py_exn + (string \<times> int) list list"
  db_execute_query_pandas :: "string \<Rightarrow> int \<Rightarrow> py_exn + DataFrame"
  get_query_by_id :: "int \<Rightarrow> Query option"
  format_chart_data :: "DataFrame \<Rightarrow> string option \<Rightarrow> py_exn + ChartData"
  float_of_str :: "string \<Rightarrow> pyfloat option"
  float_of_big_int :: "int \<Rightarrow> pyfloat option"
  float_of_obj :: "string \<Rightarrow> py_exn + pyfloat"

definition df_empty :: "DataFrame \<Rightarrow> bool" where
  "df_empty df = (df_columns df = [] \<or> df_rows df = [])"

text \<open>\<^verbatim>\<open>df.drop(columns=[name], inplace=True)\<close>.\<close>

definition drop_column :: "string \<Rightarrow> DataFrame \<Rightarrow> DataFrame" where
  "drop_column name df =
     (let keep = map (\<lambda>c. c \<noteq> name) (df_columns df) in
      \<lparr>df_columns = filter (\<lambda>c. c \<noteq> name) (df_columns df),
       df_rows = map (\<lambda>r. map fst (filter snd (zip r keep))) (df_rows df)\<rparr>)"

subsection \<open>Pieces shared by the table paths\<close>

definition nl :: string where
  "nl = [CHR 0x0A]"

text \<open>The ROWNUM pagination wrapper, with the f-string's own line breaks and indentation;
  \<open>bound\<close> is the sum of limit and offset.\<close>

definition paginated :: "string \<Rightarrow> int \<Rightarrow> int \<Rightarrow> string" where
  "paginated query bound off =
     nl @ ''            SELECT * FROM ('' @ nl
        @ ''                SELECT a.*, ROWNUM rnum FROM ('' @ nl
        @ ''                    '' @ query @ nl
        @ ''                ) a WHERE ROWNUM <= '' @ str_int bound @ nl
        @ ''            ) WHERE rnum > '' @ str_int off @ nl
        @ ''            ''"

definition count_query_of :: "string \<Rightarrow> string" where
  "count_query_of query = ''SELECT COUNT(*) as total_count FROM ('' @ query @ '') sub''"

definition structure_query_of :: "string \<Rightarrow> string" where
  "structure_query_of query = ''SELECT * FROM ('' @ query @ '') WHERE 1=0''"

text \<open>Dropping the row-number column from a non-empty frame.\<close>

definition drop_rnum :: "DataFrame \<Rightarrow> DataFrame" where
  "drop_rnum df =
     (if \<not> df_empty df \<and> ''RNUM'' \<in> set (df_columns df) then drop_column ''RNUM'' df
      else if \<not> df_empty df \<and> ''rnum'' \<in> set (df_columns df) then drop_column ''rnum'' df
      else df)"

text \<open>
  For an empty frame, the column headers are fetched with the zero-row variant of the
  query; whatever that raises is logged and swallowed.
\<close>

definition with_structure :: "world \<Rightarrow> string \<Rightarrow> DataFrame \<Rightarrow> DataFrame" where
  "with_structure w query df =
     (if df_empty df
      then (case db_execute_query_pandas w (structure_query_of query) 10 of
              Inl e \<Rightarrow> df
            | Inr structure_df \<Rightarrow>
                if length (df_columns structure_df) > 0
                then \<lparr>df_columns = df_columns structure_df, df_rows = []\<rparr>
                else df)
      else df)"

text \<open>
  The \<^verbatim>\<open>except Exception\<close> handler that the chart path and the table path share word for
  word: the message is chosen by looking for vendor codes in \<^verbatim>\<open>str(e)\<close>.
\<close>

definition generic_error :: string where
  "generic_error = ''Query execution failed. Please check your SQL syntax and try again.''"

definition syntax_error :: string where
  "syntax_error = ''SQL syntax error: Please check your query syntax.''"

definition missing_table_error :: string where
  "missing_table_error = ''Table or view not found. Please verify the table name.''"

definition missing_column_error :: string where
  "missing_column_error = ''Column not found. Please verify the column names.''"

definition error_msg_for :: "py_exn \<Rightarrow> string" where
  "error_msg_for e =
     (let s = exn_str e in
      if str_in ''ORA-00907'' s \<or> str_in ''ORA-00936'' s \<or> str_in ''missing right parenthesis'' s
      then syntax_error
      else if str_in ''ORA-00942'' s \<or> str_in ''table or view does not exist'' s
      then missing_table_error
      else if str_in ''ORA-00904'' s \<or> str_in ''invalid identifier'' s
      then missing_column_error
      else generic_error)"

subsection \<open>\<^verbatim>\<open>execute_query_for_chart\<close>\<close>

text \<open>
  \<^verbatim>\<open>float(first_val)\<close>. \<^verbatim>\<open>None\<close> raises \<^verbatim>\<open>TypeError\<close>; an integer of magnitude up to
  \<open>2 ^ 53\<close> converts to the float of the same value, which is exact; a float is returned
  as it is; the other cases are the builtin's.
\<close>

definition py_float :: "world \<Rightarrow> cell \<Rightarrow> py_exn + pyfloat" where
  "py_float w v =
     (case v of
        CNone \<Rightarrow> Inl (TypeError (''float() argument must be a string or a real number, not ''
                                  @ [CHR 0x27] @ ''NoneType'' @ [CHR 0x27]))
      | CInt i \<Rightarrow>
          if \<bar>i\<bar> \<le> 2 ^ 53 then Inr (Finite (of_int i))
          else (case float_of_big_int w i of
                  None \<Rightarrow> Inl (OverflowError ''int too large to convert to float'')
                | Some x \<Rightarrow> Inr x)
      | CFloat x \<Rightarrow> Inr x
      | CStr s \<Rightarrow> (case float_of_str w s of
                     None \<Rightarrow> Inl (ValueError (''could not convert string to float: '' @ repr_str s))
                   | Some x \<Rightarrow> Inr x)
      | CObj t \<Rightarrow> float_of_obj w t)"

fun is_type_or_value_error :: "py_exn \<Rightarrow> bool" where
  "is_type_or_value_error (TypeError m) = True"
| "is_type_or_value_error (ValueError m) = True"
| "is_type_or_value_error e = False"

definition kpi_dataset :: "number \<Rightarrow> ChartData" where
  "kpi_dataset num_val = \<lparr>labels = [''KPI''], datasets = [[(''data'', DNums [num_val])]]\<rparr>"

text \<open>The \<^verbatim>\<open>kpi\<close> branch, with its inner and its outer \<^verbatim>\<open>try\<close>.\<close>

definition kpi_chart :: "world \<Rightarrow> DataFrame \<Rightarrow> ChartData" where
  "kpi_chart w df =
     (let first_val =
            (if \<not> df_empty df
             then (let first_row = hd (df_rows df) in
                   if length first_row > 0 then hd first_row else CNone)
             else CNone);
          attempt =
            (case py_float w first_val of
               Inr x \<Rightarrow> Inr (kpi_dataset (NFloat x))
             | Inl e \<Rightarrow> if is_type_or_value_error e then Inr (kpi_dataset (NInt 0)) else Inl e)
      in case attempt of
           Inr chart_data \<Rightarrow> chart_data
         | Inl e \<Rightarrow> kpi_dataset (NInt 0))"

definition chart_failure :: "int \<Rightarrow> py_exn \<Rightarrow> QueryResult" where
  "chart_failure timeout e =
     (if is_timeout e
      then failure (''Query timed out after '' @ str_int timeout
                      @ '' seconds. Try reducing data range or complexity.'')
      else failure (error_msg_for e))"

definition execute_query_for_chart ::
  "world \<Rightarrow> string \<Rightarrow> string option \<Rightarrow> (string \<times> string) list option \<Rightarrow> int \<Rightarrow> QueryResult" where
  "execute_query_for_chart w query ctype cconfig timeout =
     (case db_execute_query_pandas w query timeout of
        Inl e \<Rightarrow> chart_failure timeout e
      | Inr df \<Rightarrow>
          if df_empty df then failure ''Query returned no data''
          else
            (case (if ctype = Some ''kpi'' then Inr (kpi_chart w df)
                   else format_chart_data w df ctype) of
               Inl e \<Rightarrow> chart_failure timeout e
             | Inr chart_data \<Rightarrow>
                 \<lparr>success = True, qr_data = Some (Chart chart_data), chart_type = ctype,
                  chart_config = Some (case cconfig of None \<Rightarrow> [] | Some c \<Rightarrow> c),
                  error = None\<rparr>))"

subsection \<open>\<^verbatim>\<open>execute_query_for_table\<close>\<close>

definition unbound_count_result :: py_exn where
  "unbound_count_result = UnboundLocalError
     (''cannot access local variable '' @ [CHR 0x27] @ ''count_result'' @ [CHR 0x27]
        @ '' where it is not associated with a value'')"

text \<open>
  The count, with its three-way \<^verbatim>\<open>try\<close>. When \<^verbatim>\<open>execute_query\<close> raises, \<^verbatim>\<open>count_result\<close>
  has not been bound: the timeout handler does not read it, the general handler does,
  and reading it raises. When the call returns and the lower-case key is missing, the
  \<^verbatim>\<open>KeyError\<close> reaches the general handler with \<^verbatim>\<open>count_result\<close> bound.
\<close>

definition table_total_count :: "world \<Rightarrow> string \<Rightarrow> int \<Rightarrow> int \<Rightarrow> DataFrame \<Rightarrow> py_exn + int" where
  "table_total_count w query off timeout df =
     (case db_execute_query w (count_query_of query) (min timeout 30) of
        Inl e \<Rightarrow>
          if is_timeout e then Inr (int (length (df_rows df)) + off)
          else Inl unbound_count_result
      | Inr count_result \<Rightarrow>
          (case count_result of
             [] \<Rightarrow> Inr 0
           | row # rest \<Rightarrow>
               (case map_of row ''total_count'' of
                  Some n \<Rightarrow> Inr n
                | None \<Rightarrow>
                    (case map_of row ''TOTAL_COUNT'' of
                       Some n \<Rightarrow> Inr n
                     | None \<Rightarrow> Inr 0))))"

definition table_failure :: "int \<Rightarrow> py_exn \<Rightarrow> QueryResult" where
  "table_failure timeout e =
     (if is_timeout e
      then failure (''Query timed out after '' @ str_int timeout
                      @ '' seconds. Try reducing data range or adding more specific filters.'')
      else failure (error_msg_for e))"

text \<open>
  The success result of the table paths. The rows are those of the frame; the change of
  number types that \<^verbatim>\<open>df.values.tolist()\<close> makes in frames of mixed numeric columns is not
  modelled.
\<close>

definition table_success :: "DataFrame \<Rightarrow> int \<Rightarrow> QueryResult" where
  "table_success df total_n =
     \<lparr>success = True,
      qr_data = Some (Table \<lparr>columns = df_columns df, data = df_rows df, total_count = total_n\<rparr>),
      chart_type = None, chart_config = None, error = None\<rparr>"

definition execute_query_for_table :: "world \<Rightarrow> string \<Rightarrow> int \<Rightarrow> int \<Rightarrow> int \<Rightarrow> QueryResult" where
  "execute_query_for_table w query lmt off timeout =
     (case db_execute_query_pandas w (paginated query (lmt + off) off) timeout of
        Inl e \<Rightarrow> table_failure timeout e
      | Inr df0 \<Rightarrow>
          let df = with_structure w query (drop_rnum df0) in
          (case table_total_count w query off timeout df of
             Inl e \<Rightarrow> table_failure timeout e
           | Inr total_n \<Rightarrow> table_success df total_n))"

subsection \<open>\<^verbatim>\<open>execute_filtered_query\<close>\<close>

text \<open>Truthiness of the optional request fields.\<close>

fun truthy_int :: "int option \<Rightarrow> bool" where
  "truthy_int None = False"
| "truthy_int (Some n) = (n \<noteq> 0)"

fun truthy_str :: "string option \<Rightarrow> bool" where
  "truthy_str None = False"
| "truthy_str (Some s) = (s \<noteq> [])"

text \<open>The base query: looked up or taken from the request, trimmed, then validated.\<close>

definition base_query_of :: "world \<Rightarrow> FilteredQueryRequest \<Rightarrow> py_exn + string" where
  "base_query_of w request =
     (if truthy_int (query_id request)
      then (case get_query_by_id w (the (query_id request)) of
              None \<Rightarrow> Inl (ValueError ''Query not found'')
            | Some query_obj \<Rightarrow>
                let base_query = rstrip_chars '';'' (strip (stored_sql_query query_obj)) in
                (case validate_sql base_query of Inl e \<Rightarrow> Inl e | Inr u \<Rightarrow> Inr base_query))
      else if truthy_str (sql_query request)
      then (let base_query = rstrip_chars '';'' (strip (the (sql_query request))) in
            case validate_sql base_query of Inl e \<Rightarrow> Inl e | Inr u \<Rightarrow> Inr base_query)
      else Inl (ValueError ''Either query_id or sql_query must be provided''))"

text \<open>\<^verbatim>\<open>get("total_count") or get("TOTAL_COUNT") or 0\<close> on the first row, if there is one.\<close>

definition filtered_total_count :: "(string \<times> int) list list \<Rightarrow> int" where
  "filtered_total_count count_result =
     (case count_result of
        [] \<Rightarrow> 0
      | row # rest \<Rightarrow>
          (case map_of row ''total_count'' of
             Some n \<Rightarrow> if n \<noteq> 0 then n
                       else (case map_of row ''TOTAL_COUNT'' of Some m \<Rightarrow> m | None \<Rightarrow> 0)
           | None \<Rightarrow> (case map_of row ''TOTAL_COUNT'' of Some m \<Rightarrow> m | None \<Rightarrow> 0)))"

definition sorted_query_of :: "FilteredQueryRequest \<Rightarrow> string \<Rightarrow> string" where
  "sorted_query_of request filtered_query =
     (if truthy_str (sort_column request)
      then
        let direction =
              (if truthy_str (sort_direction request)
                  \<and> str_upper (the (sort_direction request)) = below ''DESC''
               then ''DESC'' else ''ASC'');
            safe_sort_column = filter (\<lambda>c. is_alnum c \<or> c = CHR ''_'') (the (sort_column request))
        in filtered_query @ '' ORDER BY '' @ safe_sort_column @ '' '' @ direction
      else filtered_query)"

text \<open>\<^verbatim>\<open>request.limit + request.offset\<close>, which raises when either is \<^verbatim>\<open>None\<close>.\<close>

definition limit_plus_offset :: "FilteredQueryRequest \<Rightarrow> py_exn + int" where
  "limit_plus_offset request =
     (case (limit request, offset request) of
        (Some l, Some off) \<Rightarrow> Inr (l + off)
      | (Some l, None) \<Rightarrow>
          Inl (TypeError (''unsupported operand type(s) for +: '' @ [CHR 0x27] @ ''int''
                 @ [CHR 0x27] @ '' and '' @ [CHR 0x27] @ ''NoneType'' @ [CHR 0x27]))
      | (None, Some off) \<Rightarrow>
          Inl (TypeError (''unsupported operand type(s) for +: '' @ [CHR 0x27] @ ''NoneType''
                 @ [CHR 0x27] @ '' and '' @ [CHR 0x27] @ ''int'' @ [CHR 0x27]))
      | (None, None) \<Rightarrow>
          Inl (TypeError (''unsupported operand type(s) for +: '' @ [CHR 0x27] @ ''NoneType''
                 @ [CHR 0x27] @ '' and '' @ [CHR 0x27] @ ''NoneType'' @ [CHR 0x27])))"

text \<open>
  The body of the \<^verbatim>\<open>try\<close>: the table data, or the exception that leaves it. Both database
  calls use the default timeout of 45 seconds.
\<close>

definition filtered_query_body :: "world \<Rightarrow> FilteredQueryRequest \<Rightarrow> py_exn + QueryResult" where
  "filtered_query_body w request =
     (case base_query_of w request of
        Inl e \<Rightarrow> Inl e
      | Inr base_query \<Rightarrow>
          (case apply_filters base_query (filters request) of
             Inl e \<Rightarrow> Inl e
           | Inr filtered_query \<Rightarrow>
               (case db_execute_query w (count_query_of filtered_query) 45 of
                  Inl e \<Rightarrow> Inl e
                | Inr count_result \<Rightarrow>
                    let total_n = filtered_total_count count_result;
                        sorted_query = sorted_query_of request filtered_query
                    in (case limit_plus_offset request of
                          Inl e \<Rightarrow> Inl e
                        | Inr lo \<Rightarrow>
                            (case db_execute_query_pandas w
                                    (paginated sorted_query lo (the (offset request))) 45 of
                               Inl e \<Rightarrow> Inl e
                             | Inr df0 \<Rightarrow>
                                 Inr (table_success
                                        (with_structure w filtered_query (drop_rnum df0))
                                        total_n))))))"

text \<open>The single handler of the filtered path: \<^verbatim>\<open>error=str(e)\<close>.\<close>

definition execute_filtered_query :: "world \<Rightarrow> FilteredQueryRequest \<Rightarrow> QueryResult" where
  "execute_filtered_query w request =
     (case filtered_query_body w request of
        Inl e \<Rightarrow> failure (exn_str e)
      | Inr result \<Rightarrow> result)"

section \<open>The spreadsheet comparator (\<^verbatim>\<open>routers/excel_compare.py\<close>)\<close>

subsection \<open>Worksheets\<close>

text \<open>
  The value of a cell: \<^verbatim>\<open>None\<close>, a string, an integer, or any other object (a float, a
  date, ...) carried as the text \<^verbatim>\<open>str\<close> gives for it, which is all the comparison reads.
\<close>

datatype xl_value = XNone | XStr string | XInt int | XOther string

text \<open>
  A worksheet as the comparison uses it: \<^verbatim>\<open>max_row\<close> and \<^verbatim>\<open>max_column\<close>, which are
  \<^verbatim>\<open>None\<close> for a sheet opened read-only whose file records no dimensions, and
  \<^verbatim>\<open>cell(row, column).value\<close>, which returns a value or raises. A workbook is the list of
  its sheets by name, in the order of \<^verbatim>\<open>sheetnames\<close>.
\<close>

record worksheet =
  max_row :: "nat option"
  max_column :: "nat option"
  cell_value :: "nat \<Rightarrow> nat \<Rightarrow> py_exn + xl_value"

type_synonym workbook = "(string \<times> worksheet) list"

definition sheetnames :: "workbook \<Rightarrow> string list" where
  "sheetnames wb = map fst wb"

text \<open>\<^verbatim>\<open>workbook[name]\<close>, for a name among the sheet names.\<close>

definition sheet_of :: "workbook \<Rightarrow> string \<Rightarrow> worksheet" where
  "sheet_of wb name = the (map_of wb name)"

text \<open>
  \<^verbatim>\<open>openpyxl.utils.get_column_letter\<close>: the letters of a column in bijective base 26,
  for the columns 1 to 18278.
\<close>

fun column_letters :: "nat \<Rightarrow> string" where
  "column_letters n =
     (if n = 0 then []
      else column_letters ((n - 1) div 26) @ [upper_letters ! ((n - 1) mod 26)])"

declare column_letters.simps [simp del]

definition get_column_letter :: "nat \<Rightarrow> py_exn + string" where
  "get_column_letter col =
     (if 1 \<le> col \<and> col \<le> 18278 then Inr (column_letters col)
      else Inl (ValueError (''Invalid column index '' @ str_nat col)))"

subsection \<open>\<^verbatim>\<open>compare_sheets\<close>\<close>

record cell_diff =
  diff_sheet :: string
  diff_cell_id :: string
  diff_value1 :: string
  diff_value2 :: string
  diff_status :: string

record sheet_result =
  sheet :: string
  cell_id :: string
  value1 :: string
  value2 :: string
  status :: string
  differences :: "cell_diff list"

text \<open>
  A missing value becomes the empty string, anything else its \<^verbatim>\<open>str\<close>. The values of the
  model all have one, so the fallback text for a \<^verbatim>\<open>str\<close> that raises does not arise.
\<close>

fun cell_text :: "xl_value \<Rightarrow> string" where
  "cell_text XNone = []"
| "cell_text (XStr s) = s"
| "cell_text (XInt i) = str_int i"
| "cell_text (XOther t) = t"

text \<open>
  A comparison of a number with an extent, and \<^verbatim>\<open>max\<close> of two extents: both raise
  \<^verbatim>\<open>TypeError\<close> when an extent is \<^verbatim>\<open>None\<close>.
\<close>

definition not_supported :: "string \<Rightarrow> string \<Rightarrow> string \<Rightarrow> py_exn" where
  "not_supported op left right =
     TypeError ([CHR 0x27] @ op @ [CHR 0x27] @ '' not supported between instances of ''
                  @ [CHR 0x27] @ left @ [CHR 0x27] @ '' and '' @ [CHR 0x27] @ right @ [CHR 0x27])"

definition le_extent :: "nat \<Rightarrow> nat option \<Rightarrow> py_exn + bool" where
  "le_extent n extent =
     (case extent of
        None \<Rightarrow> Inl (not_supported ''<='' ''int'' ''NoneType'')
      | Some m \<Rightarrow> Inr (n \<le> m))"

definition py_max :: "nat option \<Rightarrow> nat option \<Rightarrow> py_exn + nat" where
  "py_max a b =
     (case (a, b) of
        (Some m, Some n) \<Rightarrow> Inr (max m n)
      | (Some m, None) \<Rightarrow> Inl (not_supported ''>'' ''NoneType'' ''int'')
      | (None, Some n) \<Rightarrow> Inl (not_supported ''>'' ''int'' ''NoneType'')
      | (None, None) \<Rightarrow> Inl (not_supported ''>'' ''NoneType'' ''NoneType''))"

text \<open>The guarded read of one sheet: outside the sheet's own extent nothing is read.\<close>

definition read_cell :: "worksheet \<Rightarrow> nat \<Rightarrow> nat \<Rightarrow> py_exn + xl_value" where
  "read_cell sh row col =
     (case le_extent row (max_row sh) of
        Inl e \<Rightarrow> Inl e
      | Inr False \<Rightarrow> Inr XNone
      | Inr True \<Rightarrow>
          (case le_extent col (max_column sh) of
             Inl e \<Rightarrow> Inl e
           | Inr False \<Rightarrow> Inr XNone
           | Inr True \<Rightarrow> cell_value sh row col))"

text \<open>
  One pass of the inner loop. A read that raises is logged and the cell is skipped
  (\<^verbatim>\<open>continue\<close>); a mismatch found when the list is full leaves the inner loop
  (\<^verbatim>\<open>break\<close>); \<^verbatim>\<open>get_column_letter\<close> is called outside the inner \<^verbatim>\<open>try\<close>, so what it
  raises leaves the function's own \<^verbatim>\<open>try\<close>.
\<close>

datatype step = Raise py_exn | Break | Next "cell_diff list"

definition compare_cell ::
  "worksheet \<Rightarrow> worksheet \<Rightarrow> string \<Rightarrow> nat \<Rightarrow> nat \<Rightarrow> nat \<Rightarrow> cell_diff list \<Rightarrow> step" where
  "compare_cell sheet1 sheet2 sheet_name max_differences row col found =
     (case read_cell sheet1 row col of
        Inl e \<Rightarrow> Next found
      | Inr cell1_value \<Rightarrow>
          (case read_cell sheet2 row col of
             Inl e \<Rightarrow> Next found
           | Inr cell2_value \<Rightarrow>
               let cell1_str = cell_text cell1_value;
                   cell2_str = cell_text cell2_value
               in if cell1_str \<noteq> cell2_str
                  then
                    if length found \<ge> max_differences then Break
                    else (case get_column_letter col of
                            Inl e \<Rightarrow> Raise e
                          | Inr letters \<Rightarrow>
                              Next (found @
                                [\<lparr>diff_sheet = sheet_name,
                                  diff_cell_id = letters @ str_nat row,
                                  diff_value1 = take 100 cell1_str,
                                  diff_value2 = take 100 cell2_str,
                                  diff_status = ''not matched''\<rparr>]))
                  else Next found))"

text \<open>The inner loop over the columns of one row.\<close>

fun compare_row ::
  "worksheet \<Rightarrow> worksheet \<Rightarrow> string \<Rightarrow> nat \<Rightarrow> nat \<Rightarrow> nat list \<Rightarrow> cell_diff list
     \<Rightarrow> py_exn + cell_diff list" where
  "compare_row sheet1 sheet2 sheet_name max_differences row [] found = Inr found"
| "compare_row sheet1 sheet2 sheet_name max_differences row (col # cols) found =
     (case compare_cell sheet1 sheet2 sheet_name max_differences row col found of
        Raise e \<Rightarrow> Inl e
      | Break \<Rightarrow> Inr found
      | Next found' \<Rightarrow> compare_row sheet1 sheet2 sheet_name max_differences row cols found')"

text \<open>The outer loop over the rows, left once the list is full.\<close>

fun compare_rows ::
  "worksheet \<Rightarrow> worksheet \<Rightarrow> string \<Rightarrow> nat \<Rightarrow> nat list \<Rightarrow> nat list \<Rightarrow> cell_diff list
     \<Rightarrow> py_exn + cell_diff list" where
  "compare_rows sheet1 sheet2 sheet_name max_differences [] cols found = Inr found"
| "compare_rows sheet1 sheet2 sheet_name max_differences (row # rows) cols found =
     (case compare_row sheet1 sheet2 sheet_name max_differences row cols found of
        Inl e \<Rightarrow> Inl e
      | Inr found' \<Rightarrow>
          if length found' \<ge> max_differences then Inr found'
          else compare_rows sheet1 sheet2 sheet_name max_differences rows cols found')"

text \<open>
  The test for two empty sheets, with the short-circuit order of its conjunction: the
  first cell of a sheet is read only when the sheet's extent is one by one.
\<close>

definition both_empty :: "worksheet \<Rightarrow> worksheet \<Rightarrow> py_exn + bool" where
  "both_empty sheet1 sheet2 =
     (if max_row sheet1 = Some 1 \<and> max_column sheet1 = Some 1
      then (case cell_value sheet1 1 1 of
              Inl e \<Rightarrow> Inl e
            | Inr v1 \<Rightarrow>
                if v1 = XNone \<and> max_row sheet2 = Some 1 \<and> max_column sheet2 = Some 1
                then (case cell_value sheet2 1 1 of
                        Inl e \<Rightarrow> Inl e
                      | Inr v2 \<Rightarrow> Inr (v2 = XNone))
                else Inr False)
      else Inr False)"

definition comparison_error :: "string \<Rightarrow> py_exn \<Rightarrow> sheet_result" where
  "comparison_error sheet_name e =
     \<lparr>sheet = sheet_name, cell_id = ''ERROR'', value1 = ''Error during comparison'',
      value2 = exn_str e, status = ''comparison_error'', differences = []\<rparr>"

text \<open>The walk over the bounding rectangle and the result made of what it finds.\<close>

definition walk_result ::
  "worksheet \<Rightarrow> worksheet \<Rightarrow> string \<Rightarrow> nat \<Rightarrow> nat \<Rightarrow> nat \<Rightarrow> sheet_result" where
  "walk_result sheet1 sheet2 sheet_name max_differences rows cols =
     (case compare_rows sheet1 sheet2 sheet_name max_differences
             [1 ..< rows + 1] [1 ..< cols + 1] [] of
        Inl e \<Rightarrow> comparison_error sheet_name e
      | Inr found \<Rightarrow>
          if found = []
          then \<lparr>sheet = sheet_name, cell_id = ''NA'', value1 = ''NA'', value2 = ''NA'',
                status = ''matched'', differences = []\<rparr>
          else \<lparr>sheet = sheet_name, cell_id = ''multiple'', value1 = ''multiple'',
                value2 = ''multiple'', status = ''not matched'', differences = found\<rparr>)"

text \<open>
  \<^verbatim>\<open>compare_sheets\<close>. Whatever is raised outside the per-cell \<^verbatim>\<open>try\<close> (by the test for
  empty sheets, by \<^verbatim>\<open>max\<close> on an extent that is \<^verbatim>\<open>None\<close>, by \<^verbatim>\<open>get_column_letter\<close>) is
  caught by the function's own \<^verbatim>\<open>try\<close> and reported as \<^verbatim>\<open>comparison_error\<close>.
\<close>

definition compare_sheets :: "worksheet \<Rightarrow> worksheet \<Rightarrow> string \<Rightarrow> nat \<Rightarrow> sheet_result" where
  "compare_sheets sheet1 sheet2 sheet_name max_differences =
     (case both_empty sheet1 sheet2 of
        Inl e \<Rightarrow> comparison_error sheet_name e
      | Inr True \<Rightarrow>
          \<lparr>sheet = sheet_name, cell_id = ''NA'', value1 = ''Empty sheet'', value2 = ''Empty sheet'',
           status = ''matched'', differences = []\<rparr>
      | Inr False \<Rightarrow>
          (case py_max (max_row sheet1) (max_row sheet2) of
             Inl e \<Rightarrow> comparison_error sheet_name e
           | Inr rows0 \<Rightarrow>
               (case py_max (max_column sheet1) (max_column sheet2) of
                  Inl e \<Rightarrow> comparison_error sheet_name e
                | Inr cols \<Rightarrow>
                    let total_cells = rows0 * cols;
                        rows = (if total_cells > 1000000 then min rows0 1000 else rows0)
                    in walk_result sheet1 sheet2 sheet_name max_differences rows cols)))"

subsection \<open>\<^verbatim>\<open>compare_excel_files\<close>, from the sheet names on\<close>

text \<open>
  The part of the endpoint that follows the loading of the two workbooks. The upload
  checks before it and the file names in the response are left out; \<open>overall_success\<close> is
  the \<^verbatim>\<open>success\<close> entry of the result. A Python \<^verbatim>\<open>set\<close> is iterated in an order of its own;
  here it is the order of the first occurrences in the workbook it comes from.
\<close>

record comparison_outcome =
  overall_success :: bool
  total_sheets :: nat
  matched_sheets :: nat
  comparison_results :: "sheet_result list"
  summary :: string

definition sheet_report :: "string \<Rightarrow> string \<Rightarrow> string \<Rightarrow> string \<Rightarrow> sheet_result" where
  "sheet_report sheet_name v1 v2 st =
     \<lparr>sheet = sheet_name, cell_id = ''NA'', value1 = v1, value2 = v2, status = st,
      differences = []\<rparr>"

definition exists_or_missing :: "bool \<Rightarrow> string" where
  "exists_or_missing b = (if b then ''sheet exists'' else ''sheet missing'')"

text \<open>The loop over \<^verbatim>\<open>sheets_to_compare\<close>, carrying the results and the count of matches.\<close>

fun compare_each ::
  "workbook \<Rightarrow> workbook \<Rightarrow> string list \<Rightarrow> sheet_result list \<times> nat \<Rightarrow> sheet_result list \<times> nat" where
  "compare_each workbook1 workbook2 [] acc = acc"
| "compare_each workbook1 workbook2 (sheet_name # rest) (results, matched) =
     (if sheet_name \<in> set (sheetnames workbook1) \<and> sheet_name \<in> set (sheetnames workbook2)
      then
        let sheet_result = compare_sheets (sheet_of workbook1 sheet_name)
                             (sheet_of workbook2 sheet_name) sheet_name 1000
        in compare_each workbook1 workbook2 rest
             (results @ [sheet_result],
              if status sheet_result = ''matched'' then matched + 1 else matched)
      else
        compare_each workbook1 workbook2 rest
          (results @
             [sheet_report sheet_name
                (exists_or_missing (sheet_name \<in> set (sheetnames workbook1)))
                (exists_or_missing (sheet_name \<in> set (sheetnames workbook2)))
                ''sheet_mismatch''],
           matched))"

definition compare_excel_files :: "workbook \<Rightarrow> workbook \<Rightarrow> py_exn + comparison_outcome" where
  "compare_excel_files workbook1 workbook2 =
     (let sheets1 = sheetnames workbook1;
          sheets2 = sheetnames workbook2;
          common_sheets = remdups (filter (\<lambda>s. s \<in> set sheets2) sheets1)
      in if length sheets1 \<noteq> length sheets2 \<and> common_sheets = []
         then Inl (HTTPException 400
                (''No common sheets found between files. File 1 has: ''
                   @ py_repr (PList (map PStr sheets1)) @ ''. File 2 has: ''
                   @ py_repr (PList (map PStr sheets2))))
         else
           let sheets_to_compare =
                 (if length sheets1 \<noteq> length sheets2 then common_sheets else sheets1);
               (results, matched) = compare_each workbook1 workbook2 sheets_to_compare ([], 0);
               sheets1_only = remdups (filter (\<lambda>s. s \<notin> set sheets2) sheets1);
               sheets2_only = remdups (filter (\<lambda>s. s \<notin> set sheets1) sheets2);
               results1 = results
                 @ map (\<lambda>n. sheet_report n ''sheet exists'' ''sheet missing''
                               ''sheet_missing_in_file2'') sheets1_only;
               results2 = results1
                 @ map (\<lambda>n. sheet_report n ''sheet missing'' ''sheet exists''
                               ''sheet_missing_in_file1'') sheets2_only;
               total_sheets_compared =
                 length sheets_to_compare + length sheets1_only + length sheets2_only
           in Inr \<lparr>overall_success =
                     (matched = length sheets_to_compare \<and> length sheets1_only = 0
                        \<and> length sheets2_only = 0),
                   total_sheets = total_sheets_compared,
                   matched_sheets = matched,
                   comparison_results = results2,
                   summary = ''Compared '' @ str_nat total_sheets_compared @ '' sheets. ''
                     @ str_nat matched @ '' matched, ''
                     @ str_nat (total_sheets_compared - matched)
                     @ '' had differences or were missing.''\<rparr>)"

section \<open>Notions of the specification used to state the properties\<close>

text \<open>Removing one trailing statement separator, as the specification words it.\<close>

definition drop_one_separator :: "string \<Rightarrow> string" where
  "drop_one_separator s = (if s \<noteq> [] \<and> last s = CHR '';'' then butlast s else s)"

text \<open>The DML and DDL verbs that the specification lists.\<close>

definition dml_ddl_verbs :: "string list" where
  "dml_ddl_verbs = [''insert'', ''update'', ''delete'', ''drop'', ''truncate'', ''alter'',
                    ''create'', ''grant'', ''revoke'']"

text \<open>
  The operators that the specification admits, and a condition that it calls malformed:
  its operator (in lower case, as the code reads it) is none of them, or it is \<^verbatim>\<open>in\<close> with
  a value that is not a list.
\<close>

definition filter_operators :: "string list" where
  "filter_operators = [''eq'', ''ne'', ''gt'', ''lt'', ''gte'', ''lte'', ''like'', ''in'']"

definition malformed_condition :: "FilterCondition \<Rightarrow> bool" where
  "malformed_condition c =
     (str_lower (operator c) \<notin> set filter_operators
      \<or> (str_lower (operator c) = ''in'' \<and> \<not> is_list (val c)))"

definition without_malformed :: "TableFilter \<Rightarrow> TableFilter" where
  "without_malformed f = f\<lparr>conditions := filter (\<lambda>c. \<not> malformed_condition c) (conditions f)\<rparr>"


text \<open>
  The number that the coercion of the specification gives for a cell: its float, or zero
  when \<^verbatim>\<open>float\<close> raises on it.
\<close>

definition coerced_number :: "world \<Rightarrow> cell \<Rightarrow> number" where
  "coerced_number w v =
     (case v of
        CNone \<Rightarrow> NInt 0
      | CInt i \<Rightarrow>
          if \<bar>i\<bar> \<le> 2 ^ 53 then NFloat (Finite (of_int i))
          else (case float_of_big_int w i of None \<Rightarrow> NInt 0 | Some x \<Rightarrow> NFloat x)
      | CFloat x \<Rightarrow> NFloat x
      | CStr s \<Rightarrow> (case float_of_str w s of None \<Rightarrow> NInt 0 | Some x \<Rightarrow> NFloat x)
      | CObj t \<Rightarrow> (case float_of_obj w t of Inl e \<Rightarrow> NInt 0 | Inr x \<Rightarrow> NFloat x))"

section \<open>Concrete inputs\<close>

text \<open>A database on which every statement fails with the driver's ORA-00942 text.\<close>

definition ora_00942 :: string where
  "ora_00942 = ''ORA-00942: table or view does not exist''"

definition failing_world :: world where
  "failing_world =
     \<lparr>db_execute_query = (\<lambda>q t. Inl (DatabaseError ora_00942)),
      db_execute_query_pandas = (\<lambda>q t. Inl (DatabaseError ora_00942)),
      get_query_by_id = (\<lambda>i. None),
      format_chart_data = (\<lambda>df k. Inl (OtherError [])),
      float_of_str = (\<lambda>s. None),
      float_of_big_int = (\<lambda>i. None),
      float_of_obj = (\<lambda>t. Inl (TypeError []))\<rparr>"

text \<open>A database that returns one row under the pagination wrapper; its count fails.\<close>

definition one_row_frame :: DataFrame where
  "one_row_frame = \<lparr>df_columns = [''ID'', ''RNUM''], df_rows = [[CInt 1, CInt 1]]\<rparr>"

definition count_fails_world :: world where
  "count_fails_world =
     \<lparr>db_execute_query = (\<lambda>q t. Inl (DatabaseError ora_00942)),
      db_execute_query_pandas = (\<lambda>q t. Inr one_row_frame),
      get_query_by_id = (\<lambda>i. None),
      format_chart_data = (\<lambda>df k. Inl (OtherError [])),
      float_of_str = (\<lambda>s. None),
      float_of_big_int = (\<lambda>i. None),
      float_of_obj = (\<lambda>t. Inl (TypeError []))\<rparr>"

text \<open>A database that answers: the same row, and a count of three.\<close>

definition answering_world :: world where
  "answering_world =
     \<lparr>db_execute_query = (\<lambda>q t. Inr [[(''total_count'', 3)]]),
      db_execute_query_pandas = (\<lambda>q t. Inr one_row_frame),
      get_query_by_id = (\<lambda>i. None),
      format_chart_data = (\<lambda>df k. Inl (OtherError [])),
      float_of_str = (\<lambda>s. None),
      float_of_big_int = (\<lambda>i. None),
      float_of_obj = (\<lambda>t. Inl (TypeError []))\<rparr>"

text \<open>A database whose every result set is the single value 42.\<close>

definition kpi_world :: world where
  "kpi_world =
     \<lparr>db_execute_query = (\<lambda>q t. Inr []),
      db_execute_query_pandas = (\<lambda>q t. Inr \<lparr>df_columns = [''TOTAL''], df_rows = [[CInt 42]]\<rparr>),
      get_query_by_id = (\<lambda>i. None),
      format_chart_data = (\<lambda>df k. Inl (OtherError [])),
      float_of_str = (\<lambda>s. None),
      float_of_big_int = (\<lambda>i. None),
      float_of_obj = (\<lambda>t. Inl (TypeError []))\<rparr>"

text \<open>Requests and filters.\<close>

definition plain_request :: FilteredQueryRequest where
  "plain_request =
     \<lparr>query_id = None, sql_query = Some ''SELECT * FROM app_users'', filters = None,
      limit = Some 1000, offset = Some 0, sort_column = None, sort_direction = Some ''ASC''\<rparr>"


definition between_condition :: FilterCondition where
  "between_condition = \<lparr>column = ''role'', operator = ''between'', val = PStr ''A''\<rparr>"

definition scalar_in_condition :: FilterCondition where
  "scalar_in_condition = \<lparr>column = ''id'', operator = ''in'', val = PInt 5\<rparr>"

definition numbers_filter :: TableFilter where
  "numbers_filter =
     \<lparr>conditions = [\<lparr>column = ''id'', operator = ''in'', val = PList [PInt 1, PInt 2]\<rparr>],
      logic = ''AND''\<rparr>"

definition malformed_filter :: TableFilter where
  "malformed_filter = \<lparr>conditions = [between_condition, scalar_in_condition], logic = ''AND''\<rparr>"

text \<open>Worksheets.\<close>

definition blank_sheet :: worksheet where
  "blank_sheet = \<lparr>max_row = Some 1, max_column = Some 1, cell_value = (\<lambda>r c. Inr XNone)\<rparr>"


definition letter_sheet :: "string \<Rightarrow> worksheet" where
  "letter_sheet v =
     \<lparr>max_row = Some 1, max_column = Some 2, cell_value = (\<lambda>r c. Inr (XStr v))\<rparr>"


definition blank_outcome :: comparison_outcome where
  "blank_outcome =
     \<lparr>overall_success = True, total_sheets = 1, matched_sheets = 1,
      comparison_results =
        [\<lparr>sheet = ''S'', cell_id = ''NA'', value1 = ''Empty sheet'', value2 = ''Empty sheet'',
          status = ''matched'', differences = []\<rparr>],
      summary = ''Compared 1 sheets. 1 matched, 0 had differences or were missing.''\<rparr>"

section \<open>Properties of the SQL safety validator\<close>

lemma rstrip_chars_prefix: "prefix (rstrip_chars cs s) s"
proof -
  have "rev s = takeWhile (\<lambda>c. c \<in> set cs) (rev s) @ dropWhile (\<lambda>c. c \<in> set cs) (rev s)"
    by simp
  then have "s = rev (dropWhile (\<lambda>c. c \<in> set cs) (rev s)) @ rev (takeWhile (\<lambda>c. c \<in> set cs) (rev s))"
    by (metis rev_append rev_rev_ident)
  then show ?thesis unfolding rstrip_chars_def by (metis prefixI)
qed

lemma rstrip_prefix: "prefix (rstrip s) s"
proof -
  have "rev s = takeWhile is_space (rev s) @ dropWhile is_space (rev s)"
    by simp
  then have "s = rev (dropWhile is_space (rev s)) @ rev (takeWhile is_space (rev s))"
    by (metis rev_append rev_rev_ident)
  then show ?thesis unfolding rstrip_def by (metis prefixI)
qed

lemma lstrip_head: "lstrip s = [] \<or> \<not> is_space (hd (lstrip s))"
  unfolding lstrip_def by (metis hd_dropWhile)

lemma lstrip_id: "s = [] \<or> \<not> is_space (hd s) \<Longrightarrow> lstrip s = s"
  unfolding lstrip_def by (cases s) auto

lemma prefix_head: "prefix a b \<Longrightarrow> a \<noteq> [] \<Longrightarrow> hd a = hd b"
  by (cases a; cases b) auto

lemma strip_head: "strip s = [] \<or> \<not> is_space (hd (strip s))"
proof (cases "strip s = []")
  case True
  then show ?thesis by simp
next
  case False
  have p: "prefix (strip s) (lstrip s)" unfolding strip_def by (rule rstrip_prefix)
  from p False have "hd (strip s) = hd (lstrip s)" by (rule prefix_head)
  moreover have "lstrip s \<noteq> []" using p False by auto
  ultimately show ?thesis using lstrip_head [of s] by simp
qed

lemma strip_of_prefix_of_stripped:
  assumes "prefix b (strip s)"
  shows "prefix (strip b) (strip s)"
proof -
  have "b = [] \<or> \<not> is_space (hd b)"
    using assms strip_head [of s] prefix_head [of b "strip s"] by (cases "b = []") auto
  then have "lstrip b = b" by (rule lstrip_id)
  then have "prefix (strip b) b" unfolding strip_def using rstrip_prefix [of b] by simp
  from this assms show ?thesis by (rule prefix_order.trans)
qed

lemma str_lower_prefix: "prefix a b \<Longrightarrow> prefix (str_lower a) (str_lower b)"
  unfolding str_lower_def by (rule map_mono_prefix)

lemma select_drop_one:
  assumes "prefix ''select'' (str_lower t)"
  shows "prefix ''select'' (str_lower (drop_one_separator t))"
proof (cases "t \<noteq> [] \<and> last t = CHR '';''")
  case False
  then show ?thesis using assms by (auto simp add: drop_one_separator_def)
next
  case True
  then have t: "t = butlast t @ [CHR '';'']" by (metis append_butlast_last_id)
  have l: "lower_char CHR '';'' = CHR '';''"
    by (simp add: lower_char_def is_upper_def)
  have "map lower_char (butlast t @ [CHR '';'']) = map lower_char (butlast t) @ [CHR '';'']"
    using l by simp
  then have "str_lower t = str_lower (butlast t) @ [CHR '';'']"
    using t unfolding str_lower_def by simp
  with assms have "prefix ''select'' (str_lower (butlast t) @ [CHR '';''])" by simp
  then have "prefix ''select'' (str_lower (butlast t))"
    by simp
  with True show ?thesis by (simp add: drop_one_separator_def)
qed

lemma not_select_unsafe:
  "\<not> prefix ''select'' (str_lower (strip sql)) \<Longrightarrow> validate_sql sql = Inl (HTTPException 400 unsafe_sql_detail)"
  by (simp add: validate_sql_def is_safe_sql_def)

text \<open>
  Claim C5. A text that, once trimmed and with one trailing separator removed, does not
  begin with \<^verbatim>\<open>select\<close> in any letter case is rejected by \<^const>\<open>validate_sql\<close>, both
  when it is validated as it is and when it is validated after the callers' own
  \<^verbatim>\<open>.strip().rstrip(";")\<close>.
\<close>

theorem validate_sql_rejects_non_select:
  assumes "\<not> prefix ''select'' (str_lower (drop_one_separator (strip sql)))"
  shows "validate_sql sql = Inl (HTTPException 400 unsafe_sql_detail)
       \<and> validate_sql (rstrip_chars '';'' (strip sql)) = Inl (HTTPException 400 unsafe_sql_detail)"
proof -
  have n: "\<not> prefix ''select'' (str_lower (strip sql))"
    using assms select_drop_one by blast
  have "prefix (strip (rstrip_chars '';'' (strip sql))) (strip sql)"
    by (rule strip_of_prefix_of_stripped) (rule rstrip_chars_prefix)
  then have "prefix (str_lower (strip (rstrip_chars '';'' (strip sql)))) (str_lower (strip sql))"
    by (rule str_lower_prefix)
  with n have "\<not> prefix ''select'' (str_lower (strip (rstrip_chars '';'' (strip sql))))"
    using prefix_order.trans by blast
  with n show ?thesis by (simp add: not_select_unsafe)
qed

theorem validate_sql_rejects_non_select_witness:
  "\<not> prefix ''select'' (str_lower (drop_one_separator (strip ''  DROP table t; '')))
   \<and> validate_sql ''  DROP table t; '' = Inl (HTTPException 400 unsafe_sql_detail)
   \<and> validate_sql (rstrip_chars '';'' (strip ''  DROP table t; '')) = Inl (HTTPException 400 unsafe_sql_detail)"
proof -
  have h: "\<not> prefix ''select'' (str_lower (drop_one_separator (strip ''  DROP table t; '')))"
    by (simp add: strip_def lstrip_def rstrip_def is_space_def drop_one_separator_def
        str_lower_def lower_char_def is_upper_def upper_letters_def lower_letters_def)
  show ?thesis using h validate_sql_rejects_non_select [OF h] by simp
qed

lemma search_from_here: "list_ex (\<lambda>p. rmatch p prev s) alts \<Longrightarrow> search_from alts prev s"
  by (cases s) simp_all

lemma search_from_append: "(\<And>prev. list_ex (\<lambda>p. rmatch p prev s) alts) \<Longrightarrow> search_from alts prev (a @ s)"
proof (induction a arbitrary: prev)
  case Nil
  then show ?case by (simp add: search_from_here)
next
  case (Cons x a)
  then show ?case by simp
qed

lemma rmatch_lits_wordb:
  "w \<noteq> [] \<Longrightarrow> is_word (last w) \<Longrightarrow> \<not> word_next b \<Longrightarrow> rmatch (lits w @ [WordB]) prev (w @ b)"
proof (induction w arbitrary: prev)
  case Nil
  then show ?case by simp
next
  case (Cons x w)
  show ?case
  proof (cases "w = []")
    case True
    with Cons.prems show ?thesis by (simp add: lits_def)
  next
    case False
    with Cons.prems have "rmatch (lits w @ [WordB]) (Some x) (w @ b)"
      by (intro Cons.IH) simp_all
    then show ?thesis by (simp add: lits_def)
  qed
qed

lemma verb_facts:
  assumes "v \<in> set dml_ddl_verbs"
  shows "v \<noteq> []" and "is_word (last v)" and "lits v @ [WordB] \<in> set FORBIDDEN_TOKENS"
    and "\<forall>c \<in> set v. \<not> is_space c"
  using assms
  by (auto simp add: dml_ddl_verbs_def FORBIDDEN_TOKENS_def is_word_def is_alnum_def
      is_space_def)

lemma not_upper_lower: "\<not> is_upper c \<Longrightarrow> lower_char c = c"
  by (simp add: lower_char_def)

lemma not_word_lower: "\<not> is_word c \<Longrightarrow> lower_char c = c"
proof -
  assume "\<not> is_word c"
  then have "\<not> is_upper c"
    by (auto simp add: is_word_def is_alnum_def is_upper_def Let_def)
  then show ?thesis by (rule not_upper_lower)
qed

lemma lower_not_space: "\<not> is_space (lower_char c) \<Longrightarrow> \<not> is_space c"
proof (cases "is_upper c")
  case True
  then show ?thesis by (auto simp add: is_upper_def is_space_def Let_def)
next
  case False
  assume "\<not> is_space (lower_char c)"
  with False show ?thesis by (simp add: not_upper_lower)
qed

lemma strip_around:
  assumes "mid \<noteq> []" and "\<forall>c \<in> set mid. \<not> is_space c"
  shows "strip (pre @ mid @ post) = lstrip pre @ mid @ rstrip post"
proof -
  obtain m ms where m: "mid = m # ms" using assms(1) by (cases mid) auto
  obtain ns n where n: "mid = ns @ [n]" using assms(1) by (metis rev_exhaust)
  have "\<not> is_space m" using assms(2) m by simp
  have "\<not> is_space n" using assms(2) n by simp
  have "lstrip (pre @ mid @ post) = lstrip pre @ mid @ post"
    unfolding lstrip_def m using \<open>\<not> is_space m\<close> by (simp add: dropWhile_append3)
  moreover have "rstrip (a @ mid @ post) = a @ mid @ rstrip post" for a
  proof -
    have "rev (a @ mid @ post) = rev post @ n # (rev ns @ rev a)" by (simp add: n)
    then have "dropWhile is_space (rev (a @ mid @ post)) = dropWhile is_space (rev post) @ n # (rev ns @ rev a)"
      using \<open>\<not> is_space n\<close> by (simp add: dropWhile_append3)
    then show ?thesis unfolding rstrip_def by (simp add: n)
  qed
  ultimately show ?thesis unfolding strip_def by simp
qed

lemma rstrip_word_next: "post = [] \<or> \<not> is_word (hd post) \<Longrightarrow> \<not> word_next (str_lower (rstrip post))"
proof (cases "rstrip post")
  case Nil
  then show ?thesis by (simp add: str_lower_def)
next
  case (Cons x xs)
  assume a: "post = [] \<or> \<not> is_word (hd post)"
  have p: "prefix (rstrip post) post" by (rule rstrip_prefix)
  from p Cons have "hd (rstrip post) = hd post" by (intro prefix_head) simp_all
  moreover have "post \<noteq> []" using p Cons by auto
  ultimately have "\<not> is_word x" using a Cons by simp
  then show ?thesis using Cons by (simp add: str_lower_def not_word_lower)
qed

lemma separator_kept: "CHR '';'' \<in> set sql \<Longrightarrow> CHR '';'' \<in> set (str_lower (strip sql))"
proof -
  assume "CHR '';'' \<in> set sql"
  then obtain pre post where s: "sql = pre @ '';'' @ post"
    by (metis append_Cons append_Nil split_list)
  have "strip sql = lstrip pre @ '';'' @ rstrip post"
    unfolding s by (rule strip_around) (simp_all add: is_space_def)
  moreover have "lower_char CHR '';'' = CHR '';''"
    by (simp add: lower_char_def is_upper_def)
  ultimately show ?thesis by (simp add: str_lower_def)
qed

lemma search_lit:
  "c \<in> set s \<Longrightarrow> [Lit c] \<in> set alts \<Longrightarrow> search_from alts prev s"
proof (induction s arbitrary: prev)
  case Nil
  then show ?case by simp
next
  case (Cons x s)
  show ?case
  proof (cases "x = c")
    case True
    have "rmatch [Lit c] prev (x # s)" using True by simp
    with Cons.prems(2) have "list_ex (\<lambda>p. rmatch p prev (x # s)) alts"
      unfolding list_ex_iff by blast
    then show ?thesis by simp
  next
    case False
    with Cons show ?thesis by simp
  qed
qed

lemma separator_found: "CHR '';'' \<in> set sql \<Longrightarrow> re_search FORBIDDEN_TOKENS (str_lower (strip sql))"
  unfolding re_search_def
  by (rule search_lit [OF separator_kept]) (simp_all add: FORBIDDEN_TOKENS_def lits_def)

lemma verb_found:
  assumes "sql = pre @ mid @ post" and v: "str_lower mid \<in> set dml_ddl_verbs"
    and "post = [] \<or> \<not> is_word (hd post)"
  shows "re_search FORBIDDEN_TOKENS (str_lower (strip sql))"
proof -
  let ?v = "str_lower mid"
  have ns: "\<forall>c \<in> set mid. \<not> is_space c"
    using verb_facts(4) [OF v] lower_not_space by (auto simp add: str_lower_def)
  have ne: "mid \<noteq> []" using verb_facts(1) [OF v] by (auto simp add: str_lower_def)
  have "strip sql = lstrip pre @ mid @ rstrip post"
    unfolding assms(1) using ne ns by (rule strip_around)
  then have t: "str_lower (strip sql) = str_lower (lstrip pre) @ (?v @ str_lower (rstrip post))"
    by (simp add: str_lower_def)
  have "rmatch (lits ?v @ [WordB]) prev (?v @ str_lower (rstrip post))" for prev
    using verb_facts(1,2) [OF v] rstrip_word_next [OF assms(3)] by (rule rmatch_lits_wordb)
  then have "list_ex (\<lambda>p. rmatch p prev (?v @ str_lower (rstrip post))) FORBIDDEN_TOKENS" for prev
    using verb_facts(3) [OF v] unfolding list_ex_iff by blast
  then show ?thesis unfolding re_search_def t by (rule search_from_append)
qed

text \<open>
  Claim C6. A text that contains the statement separator, or one of the verbs insert,
  update, delete, drop, truncate, alter, create, grant, revoke in any letter case as a
  whole word (no word character directly before or after it), is rejected, whether or
  not it begins with \<^verbatim>\<open>select\<close>.
\<close>

theorem validate_sql_rejects_separator_or_verb:
  assumes "CHR '';'' \<in> set sql
     \<or> (\<exists>pre mid post. sql = pre @ mid @ post \<and> str_lower mid \<in> set dml_ddl_verbs
          \<and> (pre = [] \<or> \<not> is_word (last pre)) \<and> (post = [] \<or> \<not> is_word (hd post)))"
  shows "\<not> is_safe_sql sql \<and> validate_sql sql = Inl (HTTPException 400 unsafe_sql_detail)"
proof -
  have "re_search FORBIDDEN_TOKENS (str_lower (strip sql))"
    using assms separator_found verb_found by blast
  then show ?thesis by (simp add: is_safe_sql_def validate_sql_def)
qed

theorem validate_sql_rejects_separator_or_verb_witness:
  "(CHR '';'' \<in> set ''SELECT a FROM t WHERE Delete = 1''
     \<or> (\<exists>pre mid post. ''SELECT a FROM t WHERE Delete = 1'' = pre @ mid @ post \<and> str_lower mid \<in> set dml_ddl_verbs
          \<and> (pre = [] \<or> \<not> is_word (last pre)) \<and> (post = [] \<or> \<not> is_word (hd post))))
   \<and> \<not> is_safe_sql ''SELECT a FROM t WHERE Delete = 1''
   \<and> validate_sql ''SELECT a FROM t WHERE Delete = 1'' = Inl (HTTPException 400 unsafe_sql_detail)"
proof -
  have "''SELECT a FROM t WHERE Delete = 1'' = ''SELECT a FROM t WHERE '' @ ''Delete'' @ '' = 1''
        \<and> str_lower ''Delete'' \<in> set dml_ddl_verbs
        \<and> (''SELECT a FROM t WHERE '' = [] \<or> \<not> is_word (last ''SELECT a FROM t WHERE ''))
        \<and> ('' = 1'' = [] \<or> \<not> is_word (hd '' = 1''))"
    by (simp add: str_lower_def lower_char_def is_upper_def upper_letters_def lower_letters_def
        dml_ddl_verbs_def is_word_def is_alnum_def)
  then have h: "CHR '';'' \<in> set ''SELECT a FROM t WHERE Delete = 1''
     \<or> (\<exists>pre mid post. ''SELECT a FROM t WHERE Delete = 1'' = pre @ mid @ post \<and> str_lower mid \<in> set dml_ddl_verbs
          \<and> (pre = [] \<or> \<not> is_word (last pre)) \<and> (post = [] \<or> \<not> is_word (hd post)))"
    by blast
  show ?thesis using h validate_sql_rejects_separator_or_verb [OF h] by blast
qed

text \<open>
  Two texts with Latin-1 characters, on which the validator does as Python does: a
  leading no-break space is trimmed, and a verb followed by a letter with an accent is
  not a whole word.
\<close>

lemma latin1_texts_accepted:
  "is_safe_sql ([CHR 0xA0] @ ''SELECT 1'')"
  "is_safe_sql (''SELECT drop'' @ [CHR 0xE9])"
  by code_simp+

section \<open>Properties of the filter compiler\<close>




lemma apply_filters_raises:
  assumes "render_conditions (conditions g) = Inl e"
  shows "apply_filters b (Some g) = Inl e"
proof -
  have "conditions g \<noteq> []" using assms by auto
  then show ?thesis using assms by (simp add: apply_filters_def)
qed

lemma numbers_filter_raises:
  "apply_filters b (Some numbers_filter)
     = Inl (TypeError ''sequence item 0: expected str instance, int found'')"
proof -
  have "render_conditions (conditions numbers_filter)
     = Inl (TypeError ''sequence item 0: expected str instance, int found'')"
    by (simp add: numbers_filter_def render_condition_def str_lower_def lower_char_def
        is_upper_def str_nat.simps digit_chars_def)
  then show ?thesis by (rule apply_filters_raises)
qed




lemma render_none_iff: "render_condition c = Inr None \<longleftrightarrow> malformed_condition c"
  by (auto simp add: render_condition_def malformed_condition_def filter_operators_def Let_def
      split: sum.splits)

lemma render_conditions_without:
  "render_conditions (filter (\<lambda>c. \<not> malformed_condition c) cs) = render_conditions cs"
proof (induction cs)
  case Nil
  then show ?case by simp
next
  case (Cons c cs)
  show ?case
  proof (cases "malformed_condition c")
    case True
    then have "render_condition c = Inr None" by (simp add: render_none_iff)
    with True Cons show ?thesis by (simp split: sum.splits)
  next
    case False
    with Cons show ?thesis by (simp cong: sum.case_cong)
  qed
qed

lemma apply_filters_without:
  "apply_filters q (Some (without_malformed f)) = apply_filters q (Some f)"
proof -
  let ?cs = "filter (\<lambda>c. \<not> malformed_condition c) (conditions f)"
  have m: "render_conditions ?cs = render_conditions (conditions f)"
    by (rule render_conditions_without)
  have e: "?cs = [] \<Longrightarrow> render_conditions (conditions f) = Inr []"
    using m by simp
  have e': "conditions f = [] \<Longrightarrow> ?cs = []" by simp
  show ?thesis
    using m e e'
    by (cases "?cs = []"; cases "conditions f = []")
       (simp_all add: apply_filters_def without_malformed_def Let_def split: sum.splits)
qed

lemma validate_app_users: "validate_sql ''SELECT * FROM app_users'' = Inr ()"
  by code_simp

lemma trim_app_users:
  "rstrip_chars '';'' (strip ''SELECT * FROM app_users'') = ''SELECT * FROM app_users''"
  by (simp add: rstrip_chars_def strip_def lstrip_def rstrip_def is_space_def)

lemma base_query_app_users:
  "query_id request = None \<Longrightarrow> sql_query request = Some ''SELECT * FROM app_users''
   \<Longrightarrow> base_query_of w request = Inr ''SELECT * FROM app_users''"
  by (simp add: base_query_of_def trim_app_users validate_app_users)

lemma malformed_examples:
  "malformed_condition between_condition" "malformed_condition scalar_in_condition"
  by (simp_all add: malformed_condition_def between_condition_def scalar_in_condition_def
      filter_operators_def str_lower_def lower_char_def is_upper_def)

lemma malformed_filter_ignored:
  "apply_filters base_query (Some malformed_filter) = Inr base_query"
proof -
  have "filter (\<lambda>c. \<not> malformed_condition c) (conditions malformed_filter) = []"
    using malformed_examples by (simp add: malformed_filter_def)
  then have "apply_filters base_query (Some (without_malformed malformed_filter)) = Inr base_query"
    by (simp add: apply_filters_def without_malformed_def)
  then show ?thesis by (simp add: apply_filters_without)
qed

lemma str_nat_small:
  "str_nat 0 = ''0''" "str_nat 1 = ''1''" "str_nat (Suc 0) = ''1''"
  by (simp_all add: str_nat.simps digit_chars_def)

lemma drop_rnum_one_row:
  "drop_rnum one_row_frame = \<lparr>df_columns = [''ID''], df_rows = [[CInt 1]]\<rparr>"
  by (simp add: drop_rnum_def one_row_frame_def df_empty_def drop_column_def)

text \<open>
  Claim C3, as stated, fails: a request whose filter holds a condition with the operator
  \<^verbatim>\<open>between\<close> and a condition \<^verbatim>\<open>in\<close> with the scalar 5 is not rejected; the query is
  executed without them and the result is a success.
\<close>

theorem malformed_condition_not_rejected:
  "malformed_condition between_condition \<and> malformed_condition scalar_in_condition
   \<and> execute_filtered_query answering_world (plain_request\<lparr>filters := Some malformed_filter\<rparr>)
       = table_success \<lparr>df_columns = [''ID''], df_rows = [[CInt 1]]\<rparr> 3"
proof -
  let ?r = "plain_request\<lparr>filters := Some malformed_filter\<rparr>"
  have b: "base_query_of answering_world ?r = Inr ''SELECT * FROM app_users''"
    by (rule base_query_app_users) (simp_all add: plain_request_def)
  have l: "limit_plus_offset ?r = Inr 1000"
    by (simp add: limit_plus_offset_def plain_request_def)
  have s: "sorted_query_of ?r q = q" for q
    by (simp add: sorted_query_of_def plain_request_def)
  have d: "with_structure answering_world q (drop_rnum one_row_frame)
             = \<lparr>df_columns = [''ID''], df_rows = [[CInt 1]]\<rparr>" for q
    by (simp add: drop_rnum_one_row with_structure_def df_empty_def)
  have c: "db_execute_query answering_world q t = Inr [[(''total_count'', 3)]]" for q t
    by (simp add: answering_world_def)
  have p: "db_execute_query_pandas answering_world q t = Inr one_row_frame" for q t
    by (simp add: answering_world_def)
  have "filtered_query_body answering_world ?r
          = Inr (table_success \<lparr>df_columns = [''ID''], df_rows = [[CInt 1]]\<rparr> 3)"
    by (simp add: filtered_query_body_def b l s d c p malformed_filter_ignored
        filtered_total_count_def Let_def)
  then show ?thesis using malformed_examples by (simp add: execute_filtered_query_def)
qed

text \<open>
  Claim C3, amended. A condition whose operator, in lower case, is outside eq, ne, gt,
  lt, gte, lte, like, in, or is \<^verbatim>\<open>in\<close> with a value that is not a list, is not rejected: it
  is left out of the WHERE clause, and the request is executed exactly as if the filter
  did not hold it. A filter of malformed conditions only leaves the base query as it is.
\<close>

theorem malformed_conditions_ignored:
  "execute_filtered_query w (request\<lparr>filters := Some f\<rparr>)
     = execute_filtered_query w (request\<lparr>filters := Some (without_malformed f)\<rparr>)
   \<and> ((\<forall>c \<in> set (conditions f). malformed_condition c) \<longrightarrow>
        apply_filters base_query (Some f) = Inr base_query)"
proof -
  have b: "base_query_of w (request\<lparr>filters := x\<rparr>) = base_query_of w request" for x
    by (simp add: base_query_of_def)
  have s: "sorted_query_of (request\<lparr>filters := x\<rparr>) = sorted_query_of request" for x
    by (rule ext) (simp add: sorted_query_of_def)
  have l: "limit_plus_offset (request\<lparr>filters := x\<rparr>) = limit_plus_offset request" for x
    by (simp add: limit_plus_offset_def)
  have "filtered_query_body w (request\<lparr>filters := Some f\<rparr>)
     = filtered_query_body w (request\<lparr>filters := Some (without_malformed f)\<rparr>)"
    unfolding filtered_query_body_def
    by (simp add: b s l apply_filters_without Let_def cong: sum.case_cong)
  then have 1: "execute_filtered_query w (request\<lparr>filters := Some f\<rparr>)
     = execute_filtered_query w (request\<lparr>filters := Some (without_malformed f)\<rparr>)"
    by (simp add: execute_filtered_query_def)
  have 2: "apply_filters base_query (Some f) = Inr base_query"
    if "\<forall>c \<in> set (conditions f). malformed_condition c"
  proof -
    have "filter (\<lambda>c. \<not> malformed_condition c) (conditions f) = []"
      using that by (simp add: filter_empty_conv)
    then have "apply_filters base_query (Some (without_malformed f)) = Inr base_query"
      by (simp add: apply_filters_def without_malformed_def)
    then show ?thesis by (simp add: apply_filters_without)
  qed
  from 1 2 show ?thesis by blast
qed

theorem malformed_conditions_ignored_witness:
  "malformed_condition between_condition \<and> malformed_condition scalar_in_condition
   \<and> execute_filtered_query answering_world (plain_request\<lparr>filters := Some malformed_filter\<rparr>)
       = execute_filtered_query answering_world
           (plain_request\<lparr>filters := Some (without_malformed malformed_filter)\<rparr>)
   \<and> apply_filters ''SELECT * FROM app_users'' (Some malformed_filter)
       = Inr ''SELECT * FROM app_users''"
proof -
  have h: "\<forall>c \<in> set (conditions malformed_filter). malformed_condition c"
    using malformed_examples by (simp add: malformed_filter_def)
  show ?thesis
    using h malformed_examples
      malformed_conditions_ignored [where w = answering_world and request = plain_request
        and f = malformed_filter and base_query = "''SELECT * FROM app_users''"]
    by blast
qed

section \<open>Properties of the query services\<close>

lemma ora_00942_message: "error_msg_for (DatabaseError ora_00942) = missing_table_error"
  by (simp add: error_msg_for_def ora_00942_def)

text \<open>
  Claim C1, evaluated where the code departs from it. On a database that fails with the
  driver's ORA-00942 text, the table path and the chart path answer with the fixed
  message for a missing table, and the filtered path answers with the driver's text
  itself, which is none of the four fixed messages.
\<close>

theorem filtered_query_leaks_driver_text:
  "error (execute_filtered_query failing_world plain_request) = Some ora_00942
   \<and> ora_00942 \<notin> {syntax_error, missing_table_error, missing_column_error, generic_error}
   \<and> error (execute_query_for_table failing_world ''SELECT * FROM app_users'' 1000 0 45)
       = Some missing_table_error
   \<and> error (execute_query_for_chart failing_world ''SELECT * FROM app_users'' (Some ''bar'') None 45)
       = Some missing_table_error"
proof -
  have b: "base_query_of failing_world plain_request = Inr ''SELECT * FROM app_users''"
    by (rule base_query_app_users) (simp_all add: plain_request_def)
  have a: "apply_filters q (filters plain_request) = Inr q" for q
    by (simp add: apply_filters_def plain_request_def)
  have 1: "error (execute_filtered_query failing_world plain_request) = Some ora_00942"
    by (simp add: execute_filtered_query_def filtered_query_body_def b a failure_def)
       (simp add: failing_world_def failure_def)
  have 2: "ora_00942 \<notin> {syntax_error, missing_table_error, missing_column_error, generic_error}"
    by (simp add: ora_00942_def syntax_error_def missing_table_error_def
        missing_column_error_def generic_error_def)
  have 3: "error (execute_query_for_table failing_world ''SELECT * FROM app_users'' 1000 0 45)
       = Some missing_table_error"
    by (simp add: execute_query_for_table_def failing_world_def table_failure_def
        ora_00942_message failure_def)
  have 4: "error (execute_query_for_chart failing_world ''SELECT * FROM app_users'' (Some ''bar'') None 45)
       = Some missing_table_error"
    by (simp add: execute_query_for_chart_def failing_world_def chart_failure_def
        ora_00942_message failure_def)
  from 1 2 3 4 show ?thesis by blast
qed

lemma unbound_message: "error_msg_for unbound_count_result = generic_error"
  by (simp add: error_msg_for_def unbound_count_result_def)

lemma unbound_not_timeout: "\<not> is_timeout unbound_count_result"
  by (simp add: unbound_count_result_def)

text \<open>
  Claim C10. In \<^verbatim>\<open>execute_query_for_table\<close>, once the page has been fetched: when the count
  query raises anything but a timeout, the whole call returns the failure with the
  generic message, and the page is not returned; when it raises a timeout, the page is
  returned with the estimate (rows of the page plus offset) as total count.
\<close>

theorem count_failure_discards_page:
  assumes "db_execute_query_pandas w (paginated query (lmt + off) off) timeout = Inr df0"
    and "db_execute_query w (count_query_of query) (min timeout 30) = Inl e"
  shows "(\<not> is_timeout e \<longrightarrow>
            execute_query_for_table w query lmt off timeout = failure generic_error)
       \<and> (is_timeout e \<longrightarrow>
            execute_query_for_table w query lmt off timeout
              = table_success (with_structure w query (drop_rnum df0))
                  (int (length (df_rows (with_structure w query (drop_rnum df0)))) + off))"
  using assms
  by (simp add: execute_query_for_table_def table_total_count_def table_failure_def
      unbound_message unbound_not_timeout Let_def)

theorem count_failure_discards_page_witness:
  "db_execute_query_pandas count_fails_world (paginated ''SELECT * FROM t'' (10 + 0) 0) 45
     = Inr one_row_frame
   \<and> db_execute_query count_fails_world (count_query_of ''SELECT * FROM t'') (min 45 30)
     = Inl (DatabaseError ora_00942)
   \<and> \<not> is_timeout (DatabaseError ora_00942)
   \<and> execute_query_for_table count_fails_world ''SELECT * FROM t'' 10 0 45 = failure generic_error"
proof -
  have p: "db_execute_query_pandas count_fails_world (paginated ''SELECT * FROM t'' (10 + 0) 0) 45
     = Inr one_row_frame"
    by (simp add: count_fails_world_def)
  have c: "db_execute_query count_fails_world (count_query_of ''SELECT * FROM t'') (min 45 30)
     = Inl (DatabaseError ora_00942)"
    by (simp add: count_fails_world_def)
  show ?thesis using p c count_failure_discards_page [OF p c] by simp
qed

lemma kpi_chart_shape:
  "labels (kpi_chart w df) = [''KPI''] \<and> (\<exists>n. datasets (kpi_chart w df) = [[(''data'', DNums [n])]])"
  by (simp add: kpi_chart_def kpi_dataset_def Let_def split: sum.splits)

lemma kpi_chart_first:
  assumes "df_columns df \<noteq> []" and "df_rows df = (v # vs) # rest"
  shows "kpi_chart w df =
           \<lparr>labels = [''KPI''], datasets = [[(''data'', DNums [coerced_number w v])]]\<rparr>"
proof -
  have e: "\<not> df_empty df" using assms by (simp add: df_empty_def)
  show ?thesis
    by (cases v)
       (simp_all add: kpi_chart_def e assms(2) py_float_def coerced_number_def kpi_dataset_def
          Let_def split: option.splits sum.splits py_exn.splits)
qed

lemma kpi_chart_42:
  "kpi_chart w \<lparr>df_columns = [c], df_rows = [[CInt 42]]\<rparr>
       = \<lparr>labels = [''KPI''], datasets = [[(''data'', DNums [NFloat (Finite 42)])]]\<rparr>"
  using kpi_chart_first [of "\<lparr>df_columns = [c], df_rows = [[CInt 42]]\<rparr>" "CInt 42" "[]" "[]" w]
  by (simp add: coerced_number_def)

text \<open>
  Claim C8. The \<^verbatim>\<open>kpi\<close> shaping never raises and always returns the chart with the single
  label KPI and one series of one number. For a frame with a column and a first row,
  the number is the coercion of the first value of that row: its float, and zero when
  \<^verbatim>\<open>float\<close> raises on it, as for \<^verbatim>\<open>None\<close> and for a string that is no number. The result
  \<open>[[42]]\<close> gives the labels \<open>[KPI]\<close> and the series \<open>[42.0]\<close>, also through
  \<^verbatim>\<open>execute_query_for_chart\<close>.
\<close>

theorem kpi_shaping:
  "labels (kpi_chart w df) = [''KPI'']
   \<and> (\<exists>n. datasets (kpi_chart w df) = [[(''data'', DNums [n])]])
   \<and> (df_columns df \<noteq> [] \<and> df_rows df = (v # vs) # rest \<longrightarrow>
        kpi_chart w df =
          \<lparr>labels = [''KPI''], datasets = [[(''data'', DNums [coerced_number w v])]]\<rparr>)
   \<and> kpi_chart w \<lparr>df_columns = [c], df_rows = [[CInt 42]]\<rparr>
       = \<lparr>labels = [''KPI''], datasets = [[(''data'', DNums [NFloat (Finite 42)])]]\<rparr>
   \<and> kpi_chart w \<lparr>df_columns = [c], df_rows = [[CNone]]\<rparr>
       = \<lparr>labels = [''KPI''], datasets = [[(''data'', DNums [NInt 0])]]\<rparr>
   \<and> (float_of_str w s = None \<longrightarrow>
        kpi_chart w \<lparr>df_columns = [c], df_rows = [[CStr s]]\<rparr>
          = \<lparr>labels = [''KPI''], datasets = [[(''data'', DNums [NInt 0])]]\<rparr>)
   \<and> (db_execute_query_pandas w q t = Inr \<lparr>df_columns = [c], df_rows = [[CInt 42]]\<rparr> \<longrightarrow>
        execute_query_for_chart w q (Some ''kpi'') cfg t
          = \<lparr>success = True,
             qr_data = Some (Chart \<lparr>labels = [''KPI''],
                                    datasets = [[(''data'', DNums [NFloat (Finite 42)])]]\<rparr>),
             chart_type = Some ''kpi'',
             chart_config = Some (case cfg of None \<Rightarrow> [] | Some k \<Rightarrow> k), error = None\<rparr>)"
proof -
  have n: "kpi_chart w \<lparr>df_columns = [c], df_rows = [[CNone]]\<rparr>
       = \<lparr>labels = [''KPI''], datasets = [[(''data'', DNums [NInt 0])]]\<rparr>"
    using kpi_chart_first [of "\<lparr>df_columns = [c], df_rows = [[CNone]]\<rparr>" CNone "[]" "[]" w]
    by (simp add: coerced_number_def)
  have s: "kpi_chart w \<lparr>df_columns = [c], df_rows = [[CStr s]]\<rparr>
          = \<lparr>labels = [''KPI''], datasets = [[(''data'', DNums [NInt 0])]]\<rparr>"
    if "float_of_str w s = None"
    using that kpi_chart_first [of "\<lparr>df_columns = [c], df_rows = [[CStr s]]\<rparr>" "CStr s" "[]" "[]" w]
    by (simp add: coerced_number_def)
  have x: "execute_query_for_chart w q (Some ''kpi'') cfg t
          = \<lparr>success = True,
             qr_data = Some (Chart \<lparr>labels = [''KPI''],
                                    datasets = [[(''data'', DNums [NFloat (Finite 42)])]]\<rparr>),
             chart_type = Some ''kpi'',
             chart_config = Some (case cfg of None \<Rightarrow> [] | Some k \<Rightarrow> k), error = None\<rparr>"
    if "db_execute_query_pandas w q t = Inr \<lparr>df_columns = [c], df_rows = [[CInt 42]]\<rparr>"
    using that by (simp add: execute_query_for_chart_def df_empty_def kpi_chart_42)
  from kpi_chart_shape [of w df] kpi_chart_first [of df v vs rest w] kpi_chart_42 [of w c] n s x
  show ?thesis by blast
qed

theorem kpi_shaping_witness:
  "db_execute_query_pandas kpi_world ''SELECT COUNT(*) FROM app_users'' 45
     = Inr \<lparr>df_columns = [''TOTAL''], df_rows = [[CInt 42]]\<rparr>
   \<and> execute_query_for_chart kpi_world ''SELECT COUNT(*) FROM app_users'' (Some ''kpi'') None 45
       = \<lparr>success = True,
          qr_data = Some (Chart \<lparr>labels = [''KPI''],
                                 datasets = [[(''data'', DNums [NFloat (Finite 42)])]]\<rparr>),
          chart_type = Some ''kpi'', chart_config = Some [], error = None\<rparr>
   \<and> float_of_str kpi_world ''n/a'' = None
   \<and> kpi_chart kpi_world \<lparr>df_columns = [''TOTAL''], df_rows = [[CStr ''n/a'']]\<rparr>
       = \<lparr>labels = [''KPI''], datasets = [[(''data'', DNums [NInt 0])]]\<rparr>
   \<and> kpi_chart kpi_world \<lparr>df_columns = [''TOTAL''], df_rows = [[CFloat (Finite 2.5), CInt 1]]\<rparr>
       = \<lparr>labels = [''KPI''], datasets = [[(''data'', DNums [NFloat (Finite 2.5)])]]\<rparr>"
proof -
  have h: "db_execute_query_pandas kpi_world ''SELECT COUNT(*) FROM app_users'' 45
     = Inr \<lparr>df_columns = [''TOTAL''], df_rows = [[CInt 42]]\<rparr>"
    by (simp add: kpi_world_def)
  have f: "float_of_str kpi_world ''n/a'' = None"
    by (simp add: kpi_world_def)
  show ?thesis
    using h f
      kpi_shaping [where w = kpi_world and c = "''TOTAL''" and s = "''n/a''"
        and q = "''SELECT COUNT(*) FROM app_users''" and t = 45 and cfg = None
        and df = "\<lparr>df_columns = [''TOTAL''], df_rows = [[CFloat (Finite 2.5), CInt 1]]\<rparr>"
        and v = "CFloat (Finite 2.5)" and vs = "[CInt 1]" and rest = "[]"]
    by (simp add: coerced_number_def)
qed

section \<open>Properties of the spreadsheet comparator\<close>

lemma blank_compare: "compare_excel_files [(''S'', blank_sheet)] [(''S'', blank_sheet)] = Inr blank_outcome"
  by (simp add: compare_excel_files_def sheetnames_def sheet_of_def compare_sheets_def
      both_empty_def blank_sheet_def blank_outcome_def Let_def str_nat_small)

text \<open>
  Claim C4, evaluated where the code departs from it. For workbook A with the sheets X, Y
  and workbook B with the sheets X, Z, whatever the sheets hold: X is compared, Z is
  reported once as missing in file 1, and Y is reported twice, first with the status
  \<^verbatim>\<open>sheet_mismatch\<close> and then as missing in file 2; four sheets are counted and there is
  no overall success.
\<close>

theorem one_sided_sheet_reported_twice:
  "\<exists>out. compare_excel_files [(''X'', x1), (''Y'', y)] [(''X'', x2), (''Z'', z)] = Inr out
     \<and> comparison_results out =
         [compare_sheets x1 x2 ''X'' 1000,
          sheet_report ''Y'' ''sheet exists'' ''sheet missing'' ''sheet_mismatch'',
          sheet_report ''Y'' ''sheet exists'' ''sheet missing'' ''sheet_missing_in_file2'',
          sheet_report ''Z'' ''sheet missing'' ''sheet exists'' ''sheet_missing_in_file1'']
     \<and> total_sheets out = 4 \<and> \<not> overall_success out"
  by (simp add: compare_excel_files_def sheetnames_def sheet_of_def exists_or_missing_def Let_def)

lemma compare_cell_bound:
  assumes "length found \<le> m" and "compare_cell s1 s2 n m row col found = Next found'"
  shows "length found' \<le> m"
proof (cases "read_cell s1 row col")
  case (Inl e)
  with assms show ?thesis by (simp add: compare_cell_def)
next
  case v1: (Inr v1)
  show ?thesis
  proof (cases "read_cell s2 row col")
    case (Inl e)
    with v1 assms show ?thesis by (simp add: compare_cell_def)
  next
    case v2: (Inr v2)
    show ?thesis
    proof (cases "cell_text v1 = cell_text v2")
      case True
      with v1 v2 assms show ?thesis by (simp add: compare_cell_def)
    next
      case False
      show ?thesis
      proof (cases "length found \<ge> m")
        case True
        with False v1 v2 assms(2) show ?thesis by (simp add: compare_cell_def)
      next
        case nf: False
        show ?thesis
        proof (cases "get_column_letter col")
          case (Inl e)
          with nf False v1 v2 assms(2) show ?thesis by (simp add: compare_cell_def)
        next
          case (Inr letters)
          with nf False v1 v2 assms(2) have "length found' = Suc (length found)"
            by (auto simp add: compare_cell_def)
          with nf show ?thesis by simp
        qed
      qed
    qed
  qed
qed

lemma compare_row_bound:
  "length found \<le> m \<Longrightarrow> compare_row s1 s2 n m row cols found = Inr found' \<Longrightarrow> length found' \<le> m"
proof (induction cols arbitrary: found)
  case Nil
  then show ?case by simp
next
  case (Cons col cols)
  show ?case
  proof (cases "compare_cell s1 s2 n m row col found")
    case (Raise e)
    with Cons.prems show ?thesis by simp
  next
    case Break
    with Cons.prems show ?thesis by simp
  next
    case (Next f)
    from Cons.prems(1) Next have "length f \<le> m" by (rule compare_cell_bound)
    moreover from Next Cons.prems(2) have "compare_row s1 s2 n m row cols f = Inr found'" by simp
    ultimately show ?thesis by (rule Cons.IH)
  qed
qed

lemma compare_rows_bound:
  "length found \<le> m \<Longrightarrow> compare_rows s1 s2 n m rows cols found = Inr found' \<Longrightarrow> length found' \<le> m"
proof (induction rows arbitrary: found)
  case Nil
  then show ?case by simp
next
  case (Cons row rows)
  show ?case
  proof (cases "compare_row s1 s2 n m row cols found")
    case (Inl e)
    with Cons.prems show ?thesis by simp
  next
    case (Inr f)
    from Cons.prems(1) Inr have b: "length f \<le> m" by (rule compare_row_bound)
    show ?thesis
    proof (cases "length f \<ge> m")
      case True
      with Inr Cons.prems(2) b show ?thesis by simp
    next
      case False
      with Inr Cons.prems(2) have "compare_rows s1 s2 n m rows cols f = Inr found'" by simp
      with b show ?thesis by (rule Cons.IH)
    qed
  qed
qed

lemma walk_result_bound: "length (differences (walk_result s1 s2 n m rows cols)) \<le> m"
proof (cases "compare_rows s1 s2 n m [1 ..< rows + 1] [1 ..< cols + 1] []")
  case (Inl e)
  then show ?thesis by (simp add: walk_result_def comparison_error_def)
next
  case (Inr found)
  have "length found \<le> m"
    using Inr compare_rows_bound [of "[]" m s1 s2 n "[1 ..< rows + 1]" "[1 ..< cols + 1]" found]
    by simp
  with Inr show ?thesis by (simp add: walk_result_def)
qed

lemma compare_sheets_bound: "length (differences (compare_sheets s1 s2 n m)) \<le> m"
proof (cases "both_empty s1 s2")
  case (Inl e)
  then show ?thesis by (simp add: compare_sheets_def comparison_error_def)
next
  case (Inr b)
  show ?thesis
  proof (cases b)
    case True
    with Inr show ?thesis by (simp add: compare_sheets_def)
  next
    case False
    show ?thesis
    proof (cases "py_max (max_row s1) (max_row s2)")
      case (Inl e)
      with Inr False show ?thesis by (simp add: compare_sheets_def comparison_error_def)
    next
      case rows0: (Inr rows0)
      show ?thesis
      proof (cases "py_max (max_column s1) (max_column s2)")
        case (Inl e)
        with Inr False rows0 show ?thesis
          by (simp add: compare_sheets_def comparison_error_def)
      next
        case cols: (Inr cols)
        with Inr False rows0 show ?thesis
          by (simp add: compare_sheets_def Let_def walk_result_bound)
      qed
    qed
  qed
qed

lemma compare_each_results:
  "fst (compare_each wb1 wb2 names (rs, k)) =
     rs @ map (\<lambda>n. if n \<in> set (sheetnames wb1) \<and> n \<in> set (sheetnames wb2)
                    then compare_sheets (sheet_of wb1 n) (sheet_of wb2 n) n 1000
                    else sheet_report n (exists_or_missing (n \<in> set (sheetnames wb1)))
                           (exists_or_missing (n \<in> set (sheetnames wb2))) ''sheet_mismatch'') names"
  by (induction names arbitrary: rs k) (simp_all add: Let_def)

lemma outcome_results:
  assumes "compare_excel_files wb1 wb2 = Inr out"
  shows "\<exists>names. comparison_results out =
     fst (compare_each wb1 wb2 names ([], 0))
       @ map (\<lambda>n. sheet_report n ''sheet exists'' ''sheet missing'' ''sheet_missing_in_file2'')
           (remdups (filter (\<lambda>s. s \<notin> set (sheetnames wb2)) (sheetnames wb1)))
       @ map (\<lambda>n. sheet_report n ''sheet missing'' ''sheet exists'' ''sheet_missing_in_file1'')
           (remdups (filter (\<lambda>s. s \<notin> set (sheetnames wb1)) (sheetnames wb2)))
     \<and> set (sheetnames wb1) \<inter> set (sheetnames wb2) \<subseteq> set names"
proof (cases "length (sheetnames wb1) \<noteq> length (sheetnames wb2)")
  case True
  let ?names = "remdups (filter (\<lambda>s. s \<in> set (sheetnames wb2)) (sheetnames wb1))"
  from assms True have "comparison_results out =
     fst (compare_each wb1 wb2 ?names ([], 0))
       @ map (\<lambda>n. sheet_report n ''sheet exists'' ''sheet missing'' ''sheet_missing_in_file2'')
           (remdups (filter (\<lambda>s. s \<notin> set (sheetnames wb2)) (sheetnames wb1)))
       @ map (\<lambda>n. sheet_report n ''sheet missing'' ''sheet exists'' ''sheet_missing_in_file1'')
           (remdups (filter (\<lambda>s. s \<notin> set (sheetnames wb1)) (sheetnames wb2)))"
    by (auto simp add: compare_excel_files_def Let_def split: if_splits prod.splits)
  moreover have "set (sheetnames wb1) \<inter> set (sheetnames wb2) \<subseteq> set ?names" by auto
  ultimately show ?thesis by blast
next
  case False
  from assms False have "comparison_results out =
     fst (compare_each wb1 wb2 (sheetnames wb1) ([], 0))
       @ map (\<lambda>n. sheet_report n ''sheet exists'' ''sheet missing'' ''sheet_missing_in_file2'')
           (remdups (filter (\<lambda>s. s \<notin> set (sheetnames wb2)) (sheetnames wb1)))
       @ map (\<lambda>n. sheet_report n ''sheet missing'' ''sheet exists'' ''sheet_missing_in_file1'')
           (remdups (filter (\<lambda>s. s \<notin> set (sheetnames wb1)) (sheetnames wb2)))"
    by (auto simp add: compare_excel_files_def Let_def split: if_splits prod.splits)
  moreover have "set (sheetnames wb1) \<inter> set (sheetnames wb2) \<subseteq> set (sheetnames wb1)" by auto
  ultimately show ?thesis by blast
qed

text \<open>
  Claim C7. The list of cell differences that \<^verbatim>\<open>compare_sheets\<close> returns is never longer
  than its cap, whatever the sheets; in the result of \<^verbatim>\<open>compare_excel_files\<close> every
  per-sheet entry holds at most 1000 differences, and the entry of each sheet present in
  both workbooks is the result of comparing that pair of sheets alone with its own cap
  of 1000, so the cap is per sheet and not shared across the workbook.
\<close>

theorem differences_capped_per_sheet:
  "length (differences (compare_sheets sheet1 sheet2 sheet_name max_differences)) \<le> max_differences
   \<and> (compare_excel_files workbook1 workbook2 = Inr out \<longrightarrow>
        (\<forall>r \<in> set (comparison_results out). length (differences r) \<le> 1000)
        \<and> (\<forall>n \<in> set (sheetnames workbook1) \<inter> set (sheetnames workbook2).
             compare_sheets (sheet_of workbook1 n) (sheet_of workbook2 n) n 1000
               \<in> set (comparison_results out)))"
proof -
  have "(\<forall>r \<in> set (comparison_results out). length (differences r) \<le> 1000)
        \<and> (\<forall>n \<in> set (sheetnames workbook1) \<inter> set (sheetnames workbook2).
             compare_sheets (sheet_of workbook1 n) (sheet_of workbook2 n) n 1000
               \<in> set (comparison_results out))"
    if a: "compare_excel_files workbook1 workbook2 = Inr out"
  proof -
    from outcome_results [OF a] obtain names where
      r: "comparison_results out =
       fst (compare_each workbook1 workbook2 names ([], 0))
       @ map (\<lambda>n. sheet_report n ''sheet exists'' ''sheet missing'' ''sheet_missing_in_file2'')
           (remdups (filter (\<lambda>s. s \<notin> set (sheetnames workbook2)) (sheetnames workbook1)))
       @ map (\<lambda>n. sheet_report n ''sheet missing'' ''sheet exists'' ''sheet_missing_in_file1'')
           (remdups (filter (\<lambda>s. s \<notin> set (sheetnames workbook1)) (sheetnames workbook2)))"
      and c: "set (sheetnames workbook1) \<inter> set (sheetnames workbook2) \<subseteq> set names"
      by blast
    have 1: "\<forall>r \<in> set (comparison_results out). length (differences r) \<le> 1000"
      unfolding r compare_each_results
      by (auto simp add: compare_sheets_bound sheet_report_def)
    have 2: "\<forall>n \<in> set (sheetnames workbook1) \<inter> set (sheetnames workbook2).
             compare_sheets (sheet_of workbook1 n) (sheet_of workbook2 n) n 1000
               \<in> set (comparison_results out)"
    proof
      fix n assume n: "n \<in> set (sheetnames workbook1) \<inter> set (sheetnames workbook2)"
      then have "n \<in> set names" using c by blast
      then have "compare_sheets (sheet_of workbook1 n) (sheet_of workbook2 n) n 1000
        \<in> set (fst (compare_each workbook1 workbook2 names ([], 0)))"
        unfolding compare_each_results using n by (auto simp add: image_iff intro!: bexI [of _ n])
      then show "compare_sheets (sheet_of workbook1 n) (sheet_of workbook2 n) n 1000
               \<in> set (comparison_results out)"
        unfolding r by simp
    qed
    from 1 2 show ?thesis by blast
  qed
  then show ?thesis using compare_sheets_bound by blast
qed

lemma upt_small: "[Suc 0..<2] = [Suc 0]"
  by (simp add: upt_conv_Cons numeral_2_eq_2)

lemma upt_small3: "[Suc 0..<3] = [Suc 0, 2]"
  by (simp add: upt_conv_Cons numeral_3_eq_3 numeral_2_eq_2)

lemma column_letters_1: "column_letters (Suc 0) = ''A''"
  by (simp add: column_letters.simps upper_letters_def)

lemma capped_compare:
  "differences (compare_sheets (letter_sheet ''a'') (letter_sheet ''b'') ''X'' 1) =
     [\<lparr>diff_sheet = ''X'', diff_cell_id = ''A1'', diff_value1 = ''a'', diff_value2 = ''b'',
       diff_status = ''not matched''\<rparr>]"
  by (simp add: compare_sheets_def both_empty_def letter_sheet_def Let_def compare_cell_def
      read_cell_def le_extent_def py_max_def walk_result_def get_column_letter_def
      column_letters_1 str_nat_small upt_small upt_small3)

theorem differences_capped_per_sheet_witness:
  "compare_excel_files [(''S'', blank_sheet)] [(''S'', blank_sheet)] = Inr blank_outcome
   \<and> length (differences (compare_sheets (letter_sheet ''a'') (letter_sheet ''b'') ''X'' 1)) \<le> 1
   \<and> length (differences (hd (comparison_results blank_outcome))) \<le> 1000
   \<and> compare_sheets (sheet_of [(''S'', blank_sheet)] ''S'') (sheet_of [(''S'', blank_sheet)] ''S'')
         ''S'' 1000 \<in> set (comparison_results blank_outcome)"
proof -
  have r: "hd (comparison_results blank_outcome) \<in> set (comparison_results blank_outcome)"
    by (simp add: blank_outcome_def)
  have n: "''S'' \<in> set (sheetnames [(''S'', blank_sheet)]) \<inter> set (sheetnames [(''S'', blank_sheet)])"
    by (simp add: sheetnames_def)
  show ?thesis
    using differences_capped_per_sheet [of "letter_sheet ''a''" "letter_sheet ''b''" "''X''" 1
        "[(''S'', blank_sheet)]" "[(''S'', blank_sheet)]" blank_outcome] blank_compare r n
    by blast
qed












end
